theory Spec2Isabelle
  imports Main
begin

section \<open>String primitives of the host language\<close>

text \<open>
  Strings are sequences of code units. The model uses \<^typ>\<open>char\<close>, read as the Latin-1
  range of code units; every pattern and keyword of the program is ASCII.
\<close>

text \<open>\<^verbatim>\<open>String.prototype.trim\<close> strips white space and line terminators at both ends.\<close>

definition isWhiteSpace :: "char \<Rightarrow> bool" where
  "isWhiteSpace c \<longleftrightarrow>
     c = CHR 0x09 \<or> c = CHR 0x0A \<or> c = CHR 0x0B \<or> c = CHR 0x0C \<or> c = CHR 0x0D \<or>
     c = CHR 0x20 \<or> c = CHR 0xA0"

definition trim :: "string \<Rightarrow> string" where
  "trim s = rev (dropWhile isWhiteSpace (rev (dropWhile isWhiteSpace s)))"

text \<open>\<^verbatim>\<open>toLowerCase\<close>: A-Z and the Latin-1 capitals move up by 32.\<close>

definition toLowerChar :: "char \<Rightarrow> char" where
  "toLowerChar c =
     (let n = (of_char c :: nat) in
      if (65 \<le> n \<and> n \<le> 90) \<or> (192 \<le> n \<and> n \<le> 222 \<and> n \<noteq> 215)
      then char_of (n + 32) else c)"

definition toLowerCase :: "string \<Rightarrow> string" where
  "toLowerCase s = map toLowerChar s"

text \<open>\<^verbatim>\<open>s.startsWith(p)\<close>\<close>

fun startsWith :: "string \<Rightarrow> string \<Rightarrow> bool" where
  "startsWith s [] = True"
| "startsWith [] (p # ps) = False"
| "startsWith (c # cs) (p # ps) = (c = p \<and> startsWith cs ps)"

text \<open>\<^verbatim>\<open>s.padStart(n, c)\<close> for a one-character filler.\<close>

definition padStart :: "nat \<Rightarrow> char \<Rightarrow> string \<Rightarrow> string" where
  "padStart n c s = replicate (n - length s) c @ s"

text \<open>\<^verbatim>\<open>String(n)\<close> for a non-negative integer: its decimal digits.\<close>

definition digitChar :: "nat \<Rightarrow> char" where
  "digitChar d = ''0123456789'' ! d"

fun showNat :: "nat \<Rightarrow> string" where
  "showNat n = (if n < 10 then [digitChar n] else showNat (n div 10) @ [digitChar (n mod 10)])"

declare showNat.simps [simp del]

section \<open>Header patterns\<close>

text \<open>
  The header patterns are all of the shape \<^verbatim>\<open>/^(a|b|c)$/i\<close>, where an alternative is a
  sequence of letters, optional letters (\<^verbatim>\<open>s?\<close>) and optional wildcards (\<^verbatim>\<open>.?\<close>).
  \<^verbatim>\<open>pattern.test(s)\<close> is true iff some alternative matches the whole of \<open>s\<close>.
  Under the \<^verbatim>\<open>i\<close> flag a pattern letter matches itself and its capital; the dot matches
  every code unit but a line terminator.
\<close>

datatype atom = Lit char | OptLit char | OptAny

type_synonym pattern = "atom list list"

definition isLineTerminator :: "char \<Rightarrow> bool" where
  "isLineTerminator c \<longleftrightarrow> c = CHR 0x0A \<or> c = CHR 0x0D"

fun matchAtoms :: "atom list \<Rightarrow> string \<Rightarrow> bool" where
  "matchAtoms [] s = (s = [])"
| "matchAtoms (Lit c # as) s =
     (case s of [] \<Rightarrow> False | x # xs \<Rightarrow> toLowerChar x = c \<and> matchAtoms as xs)"
| "matchAtoms (OptLit c # as) s =
     ((case s of [] \<Rightarrow> False | x # xs \<Rightarrow> toLowerChar x = c \<and> matchAtoms as xs)
      \<or> matchAtoms as s)"
| "matchAtoms (OptAny # as) s =
     ((case s of [] \<Rightarrow> False | x # xs \<Rightarrow> \<not> isLineTerminator x \<and> matchAtoms as xs)
      \<or> matchAtoms as s)"

definition test :: "pattern \<Rightarrow> string \<Rightarrow> bool" where
  "test p s = list_ex (\<lambda>alt. matchAtoms alt s) p"

definition lits :: "string \<Rightarrow> atom list" where
  "lits s = map Lit s"

datatype FieldKey =
    K_id | K_description | K_asA | K_iWant | K_soThat | K_acceptanceCriteria
  | K_requirements | K_given | K_when | K_then | K_notes | K_acId | K_tags | K_priority

text \<open>\<^verbatim>\<open>ExcelParser.columnPatterns\<close>, in the order of \<^verbatim>\<open>Object.entries\<close>.\<close>

definition columnPatterns :: "(FieldKey \<times> pattern) list" where
  "columnPatterns =
    [(K_id, [lits ''id'', lits ''story'' @ [OptAny] @ lits ''id'',
             lits ''user'' @ [OptAny] @ lits ''story'' @ [OptAny] @ lits ''id'']),
     (K_description, [lits ''description'', lits ''story'' @ [OptAny] @ lits ''description'',
             lits ''title'']),
     (K_asA, [lits ''as'' @ [OptAny] @ lits ''a'', lits ''role'',
             lits ''user'' @ [OptAny] @ lits ''role'', lits ''persona'']),
     (K_iWant, [lits ''i'' @ [OptAny] @ lits ''want'', lits ''want'', lits ''goal'',
             lits ''objective'']),
     (K_soThat, [lits ''so'' @ [OptAny] @ lits ''that'', lits ''benefit'', lits ''value'',
             lits ''outcome'']),
     (K_acceptanceCriteria, [lits ''acceptance'' @ [OptAny] @ lits ''criteria'', lits ''ac'',
             lits ''criteria'']),
     (K_requirements, [lits ''requirement'' @ [OptLit CHR ''s''], lits ''req'',
             lits ''specification'']),
     (K_given, [lits ''given'', lits ''precondition'', lits ''setup'']),
     (K_when, [lits ''when'', lits ''action'', lits ''step'']),
     (K_then, [lits ''then'', lits ''expected'', lits ''result'', lits ''outcome'']),
     (K_notes, [lits ''note'' @ [OptLit CHR ''s''], lits ''comment'' @ [OptLit CHR ''s''],
             lits ''remark'' @ [OptLit CHR ''s'']]),
     (K_acId, [lits ''ac'' @ [OptAny] @ lits ''id'', lits ''criteria'' @ [OptAny] @ lits ''id''])]"

section \<open>Cells and the column mapping\<close>

text \<open>
  A cell of the decoded sheet is a string or some other value (number, boolean, date,
  \<^verbatim>\<open>undefined\<close>). The parser reads a non-string value only through its truthiness and
  through \<^verbatim>\<open>String(value)\<close>, so such a value is kept as that pair.
\<close>

datatype cell = Str string | Other bool string

fun truthy :: "cell \<Rightarrow> bool" where
  "truthy (Str s) = (s \<noteq> [])"
| "truthy (Other b r) = b"

fun String :: "cell \<Rightarrow> string" where
  "String (Str s) = s"
| "String (Other b r) = r"

text \<open>
  \<^verbatim>\<open>ColumnMapping\<close>: each field holds a column index or \<^verbatim>\<open>null\<close>; the code writes it through
  dynamic property access, so it is a map from field keys.
\<close>

type_synonym ColumnMapping = "FieldKey \<rightharpoonup> nat"

fun firstMatch :: "(FieldKey \<times> pattern) list \<Rightarrow> string \<Rightarrow> FieldKey option" where
  "firstMatch [] s = None"
| "firstMatch ((field, p) # ps) s = (if test p s then Some field else firstMatch ps s)"

text \<open>
  The callback of \<^verbatim>\<open>headerRow.forEach\<close> in \<^verbatim>\<open>detectColumnMapping\<close>. It returns at once for
  a header that is empty or not a string; otherwise its inner loop stops at the first field
  whose pattern matches the cleaned header, and the callback writes the column index there.
  \<open>headerField\<close> is the field the inner loop stops at.
\<close>

fun headerField :: "cell \<Rightarrow> FieldKey option" where
  "headerField (Other b r) = None"
| "headerField (Str header) =
     (if header = [] then None
      else firstMatch columnPatterns (toLowerCase (trim header)))"

definition mapHeader :: "ColumnMapping \<Rightarrow> cell \<Rightarrow> nat \<Rightarrow> ColumnMapping" where
  "mapHeader mapping header index =
     (case headerField header of
        None \<Rightarrow> mapping
      | Some field \<Rightarrow> mapping(field \<mapsto> index))"

fun forEachHeader :: "cell list \<Rightarrow> nat \<Rightarrow> ColumnMapping \<Rightarrow> ColumnMapping" where
  "forEachHeader [] index mapping = mapping"
| "forEachHeader (header # rest) index mapping =
     forEachHeader rest (Suc index) (mapHeader mapping header index)"

definition requiredFields :: "FieldKey list" where
  "requiredFields = [K_description, K_given, K_when, K_then]"

definition detectColumnMapping :: "cell list \<Rightarrow> ColumnMapping option" where
  "detectColumnMapping headerRow =
     (let mapping = forEachHeader headerRow 0 Map.empty;
          hasRequiredFields = list_all (\<lambda>field. mapping field \<noteq> None) requiredFields
      in if hasRequiredFields then Some mapping else None)"

section \<open>Rows\<close>

datatype Priority = Low | Medium | High | Critical

text \<open>\<^verbatim>\<open>GherkinUserStory\<close>; the fields carry the prefix \<open>s_\<close>.\<close>

record GherkinUserStory =
  s_id :: string
  s_description :: string
  s_asA :: string
  s_iWant :: string
  s_soThat :: string
  s_acceptanceCriteria :: string
  s_requirements :: string
  s_given :: string
  s_when :: string
  s_then :: string
  s_notes :: "string option"
  s_acId :: "string option"
  s_tags :: "string list option"
  s_priority :: "Priority option"

definition getCellValue :: "cell list \<Rightarrow> nat option \<Rightarrow> string" where
  "getCellValue row columnIndex =
     (case columnIndex of
        None \<Rightarrow> []
      | Some i \<Rightarrow>
          if i \<ge> length row then []
          else (let v = row ! i in if truthy v then trim (String v) else []))"

text \<open>\<^verbatim>\<open>a || b\<close> on strings.\<close>

definition orElse :: "string \<Rightarrow> string \<Rightarrow> string" where
  "orElse a b = (if a \<noteq> [] then a else b)"

text \<open>
  \<^verbatim>\<open>parseRow\<close>: \<open>Inl msg\<close> is \<^verbatim>\<open>throw new Error(msg)\<close>, \<open>Inr None\<close> is \<^verbatim>\<open>null\<close>.
\<close>

definition parseRow :: "cell list \<Rightarrow> ColumnMapping \<Rightarrow> nat \<Rightarrow> string + GherkinUserStory option" where
  "parseRow row mapping rowNumber =
     (let description = getCellValue row (mapping K_description);
          given = getCellValue row (mapping K_given);
          when = getCellValue row (mapping K_when);
          then' = getCellValue row (mapping K_then)
      in if description = [] \<and> given = [] \<and> when = [] \<and> then' = [] then Inr None
         else if description = [] then Inl ''Description is required''
         else if given = [] then Inl ''Given condition is required''
         else if when = [] then Inl ''When action is required''
         else if then' = [] then Inl ''Then result is required''
         else Inr (Some \<lparr>
           s_id = orElse (getCellValue row (mapping K_id))
                    (''US-'' @ padStart 3 CHR ''0'' (showNat rowNumber)),
           s_description = description,
           s_asA = orElse (getCellValue row (mapping K_asA)) ''User'',
           s_iWant = orElse (getCellValue row (mapping K_iWant)) description,
           s_soThat = orElse (getCellValue row (mapping K_soThat)) ''I can achieve my goal'',
           s_acceptanceCriteria = getCellValue row (mapping K_acceptanceCriteria),
           s_requirements = getCellValue row (mapping K_requirements),
           s_given = given,
           s_when = when,
           s_then = then',
           s_notes = Some (getCellValue row (mapping K_notes)),
           s_acId = Some (getCellValue row (mapping K_acId)),
           s_tags = Some [],
           s_priority = Some Medium \<rparr>))"

text \<open>
  \<^verbatim>\<open>parseDataRows\<close>: the \<^verbatim>\<open>forEach\<close> over the data rows, with the two arrays it pushes to
  as the accumulator.
\<close>

fun forEachRow ::
  "cell list list \<Rightarrow> ColumnMapping \<Rightarrow> nat \<Rightarrow> GherkinUserStory list \<times> string list
     \<Rightarrow> GherkinUserStory list \<times> string list" where
  "forEachRow [] mapping rowIndex acc = acc"
| "forEachRow (row # rest) mapping rowIndex (stories, errors) =
     forEachRow rest mapping (Suc rowIndex)
       (case parseRow row mapping (rowIndex + 2) of
          Inr (Some story) \<Rightarrow> (stories @ [story], errors)
        | Inr None \<Rightarrow> (stories, errors)
        | Inl message \<Rightarrow>
            (stories, errors @ [''Row '' @ showNat (rowIndex + 2) @ '': '' @ message]))"

definition parseDataRows ::
  "cell list list \<Rightarrow> ColumnMapping \<Rightarrow> GherkinUserStory list \<times> string list" where
  "parseDataRows dataRows mapping = forEachRow dataRows mapping 0 ([], [])"

record ParseResult =
  success :: bool
  data :: "GherkinUserStory list"
  errors :: "string list"
  totalRows :: nat
  validRows :: nat

text \<open>
  \<^verbatim>\<open>parseExcelFile\<close> from the decoded grid on. The decoding of the workbook is outside the
  program: \<open>Inl msg\<close> stands for a decoder that throws an error with that message, which
  the \<^verbatim>\<open>catch\<close> block turns into a report.
\<close>

definition parseExcelFile :: "string + cell list list \<Rightarrow> ParseResult" where
  "parseExcelFile decoded =
     (case decoded of
        Inl message \<Rightarrow>
          \<lparr> success = False, data = [],
            errors = [''Failed to parse Excel file: '' @ message],
            totalRows = 0, validRows = 0 \<rparr>
      | Inr jsonData \<Rightarrow>
          if length jsonData < 2 then
            \<lparr> success = False, data = [],
              errors = [''File must contain at least a header row and one data row''],
              totalRows = length jsonData, validRows = 0 \<rparr>
          else
            (let headerRow = hd jsonData; dataRows = tl jsonData in
             case detectColumnMapping headerRow of
               None \<Rightarrow>
                 \<lparr> success = False, data = [],
                   errors = [''Unable to detect required columns. Please ensure your Excel file has proper headers.''],
                   totalRows = length jsonData, validRows = 0 \<rparr>
             | Some columnMapping \<Rightarrow>
                 (let parseResult = parseDataRows dataRows columnMapping in
                  \<lparr> success = (snd parseResult = []), data = fst parseResult,
                    errors = snd parseResult,
                    totalRows = length dataRows, validRows = length (fst parseResult) \<rparr>)))"
section \<open>The record validator\<close>

text \<open>\<^verbatim>\<open>Partial<GherkinUserStory>\<close>: every field may be missing; the fields carry the prefix \<open>p_\<close>.\<close>

record PartialStory =
  p_id :: "string option"
  p_description :: "string option"
  p_asA :: "string option"
  p_iWant :: "string option"
  p_soThat :: "string option"
  p_acceptanceCriteria :: "string option"
  p_requirements :: "string option"
  p_given :: "string option"
  p_when :: "string option"
  p_then :: "string option"
  p_notes :: "string option"
  p_acId :: "string option"
  p_tags :: "string list option"
  p_priority :: "Priority option"

text \<open>\<^verbatim>\<open>!x?.trim()\<close>\<close>

definition missing :: "string option \<Rightarrow> bool" where
  "missing x = (case x of None \<Rightarrow> True | Some s \<Rightarrow> trim s = [])"

text \<open>\<^verbatim>\<open>x && !x.toLowerCase().startsWith(keyword)\<close>\<close>

definition lacksKeyword :: "string option \<Rightarrow> string \<Rightarrow> bool" where
  "lacksKeyword x keyword =
     (case x of None \<Rightarrow> False | Some s \<Rightarrow> s \<noteq> [] \<and> \<not> startsWith (toLowerCase s) keyword)"

text \<open>\<^verbatim>\<open>if (c) errors.push(message)\<close>\<close>

definition push :: "bool \<Rightarrow> string \<Rightarrow> string list \<Rightarrow> string list" where
  "push c message errs = (if c then errs @ [message] else errs)"

record ValidationResult =
  valid :: bool
  v_errors :: "string list"

definition validateUserStory :: "PartialStory \<Rightarrow> ValidationResult" where
  "validateUserStory story =
     (let errs = [];
          errs = push (missing (p_description story)) ''Description is required'' errs;
          errs = push (missing (p_given story)) ''Given condition is required'' errs;
          errs = push (missing (p_when story)) ''When action is required'' errs;
          errs = push (missing (p_then story)) ''Then result is required'' errs;
          errs = push (lacksKeyword (p_given story) ''given'')
                   ''Given condition should start with \"Given\"'' errs;
          errs = push (lacksKeyword (p_when story) ''when'')
                   ''When action should start with \"When\"'' errs;
          errs = push (lacksKeyword (p_then story) ''then'')
                   ''Then result should start with \"Then\"'' errs
      in \<lparr> valid = (errs = []), v_errors = errs \<rparr>)"

section \<open>The header mapper of the older parser\<close>

text \<open>
  The copy of the backend under \<^verbatim>\<open>apps copy\<close> has its own \<^verbatim>\<open>detectColumnMapping\<close>: fourteen
  patterns in another order, the header trimmed but not lowercased (the patterns carry the
  \<^verbatim>\<open>i\<close> flag), and a guard \<^verbatim>\<open>!mapping[key]\<close> on each assignment. The mapping starts as the
  empty object; \<^verbatim>\<open>!mapping[key]\<close> holds when the key is unset and when it holds index 0.
\<close>

definition patterns_copy :: "(FieldKey \<times> pattern) list" where
  "patterns_copy =
    [(K_id, [lits ''id'', lits ''story'' @ [OptAny] @ lits ''id'',
             lits ''user'' @ [OptAny] @ lits ''story'' @ [OptAny] @ lits ''id'']),
     (K_description, [lits ''description'', lits ''story'', lits ''title'', lits ''summary'']),
     (K_asA, [lits ''as'' @ [OptAny] @ lits ''a'', lits ''role'',
             lits ''user'' @ [OptAny] @ lits ''type'', lits ''actor'']),
     (K_iWant, [lits ''i'' @ [OptAny] @ lits ''want'', lits ''want'', lits ''goal'',
             lits ''objective'']),
     (K_soThat, [lits ''so'' @ [OptAny] @ lits ''that'', lits ''benefit'', lits ''value'',
             lits ''outcome'']),
     (K_acceptanceCriteria, [lits ''acceptance'' @ [OptAny] @ lits ''criteria'', lits ''ac'',
             lits ''criteria'', lits ''acceptance'']),
     (K_requirements, [lits ''requirement'' @ [OptLit CHR ''s''], lits ''req'',
             lits ''business'' @ [OptAny] @ lits ''rule'' @ [OptLit CHR ''s'']]),
     (K_notes, [lits ''note'' @ [OptLit CHR ''s''], lits ''comment'' @ [OptLit CHR ''s''],
             lits ''remark'' @ [OptLit CHR ''s'']]),
     (K_acId, [lits ''ac'' @ [OptAny] @ lits ''id'', lits ''criteria'' @ [OptAny] @ lits ''id'',
             lits ''acceptance'' @ [OptAny] @ lits ''id'']),
     (K_given, [lits ''given'', lits ''precondition'', lits ''setup'']),
     (K_when, [lits ''when'', lits ''action'', lits ''trigger'', lits ''event'']),
     (K_then, [lits ''then'', lits ''expected'', lits ''result'', lits ''outcome'']),
     (K_tags, [lits ''tag'' @ [OptLit CHR ''s''], lits ''label'' @ [OptLit CHR ''s''],
             lits ''categorie'' @ [OptLit CHR ''s'']]),
     (K_priority, [lits ''priority'', lits ''importance'', lits ''level''])]"

text \<open>The inner \<^verbatim>\<open>for\<close> loop: the first key whose pattern matches and whose slot is falsy.\<close>

fun firstFree :: "(FieldKey \<times> pattern) list \<Rightarrow> ColumnMapping \<Rightarrow> string \<Rightarrow> FieldKey option" where
  "firstFree [] mapping s = None"
| "firstFree ((key, p) # ps) mapping s =
     (if test p s \<and> (mapping key = None \<or> mapping key = Some 0) then Some key
      else firstFree ps mapping s)"

fun mapHeader_copy :: "ColumnMapping \<Rightarrow> cell \<Rightarrow> nat \<Rightarrow> ColumnMapping" where
  "mapHeader_copy mapping (Other b r) index = mapping"
| "mapHeader_copy mapping (Str header) index =
     (if header = [] then mapping
      else (case firstFree patterns_copy mapping (trim header) of
              None \<Rightarrow> mapping
            | Some key \<Rightarrow> mapping(key \<mapsto> index)))"

fun forEachHeader_copy :: "cell list \<Rightarrow> nat \<Rightarrow> ColumnMapping \<Rightarrow> ColumnMapping" where
  "forEachHeader_copy [] index mapping = mapping"
| "forEachHeader_copy (header # rest) index mapping =
     forEachHeader_copy rest (Suc index) (mapHeader_copy mapping header index)"

definition detectColumnMapping_copy :: "cell list \<Rightarrow> ColumnMapping option" where
  "detectColumnMapping_copy headerRow =
     (let mapping = forEachHeader_copy headerRow 0 Map.empty;
          hasRequired = list_all (\<lambda>col. mapping col \<noteq> None) requiredFields
      in if hasRequired then Some mapping else None)"
section \<open>Test cases and the mock provider\<close>

text \<open>\<^verbatim>\<open>TestStep\<close> and \<^verbatim>\<open>TestCase\<close>; the fields carry the prefixes \<open>st_\<close> and \<open>tc_\<close>.\<close>

record TestStep =
  st_stepNumber :: nat
  st_action :: string
  st_expectedResult :: string
  st_testData :: "string option"

record TestCase =
  tc_id :: string
  tc_title :: string
  tc_description :: string
  tc_module :: string
  tc_userType :: string
  tc_priority :: Priority
  tc_tags :: "string list"
  tc_steps :: "TestStep list"
  tc_expectedResult :: string
  tc_testData :: "string option"
  tc_preconditions :: "string list option"
  tc_postconditions :: "string list option"
  tc_sourceStoryId :: "string option"

datatype TestingScope = Smoke | Regression | Full | Custom

record TestGenerationContext =
  userStories :: "GherkinUserStory list"
  selectedModules :: "string list"
  userType :: string
  testingScope :: TestingScope
  includeNegativeTests :: bool
  includePerformanceTests :: bool
  includeSecurityTests :: bool

text \<open>
  \<^verbatim>\<open>s.replace(/^given\s*/i, '')\<close> and its two siblings: a leading keyword, in any letter
  case, goes together with the white space after it.
\<close>

definition stripKeyword :: "string \<Rightarrow> string \<Rightarrow> string" where
  "stripKeyword keyword s =
     (if length keyword \<le> length s \<and> toLowerCase (take (length keyword) s) = keyword
      then dropWhile isWhiteSpace (drop (length keyword) s) else s)"

text \<open>\<^verbatim>\<open>story.priority || 'medium'\<close> and \<^verbatim>\<open>story.tags || []\<close>\<close>

definition priorityOrMedium :: "GherkinUserStory \<Rightarrow> Priority" where
  "priorityOrMedium story = (case s_priority story of None \<Rightarrow> Medium | Some p \<Rightarrow> p)"

definition tagsOrEmpty :: "GherkinUserStory \<Rightarrow> string list" where
  "tagsOrEmpty story = (case s_tags story of None \<Rightarrow> [] | Some ts \<Rightarrow> ts)"

text \<open>
  The three constructors of the mock provider. Each reads the clock once for the suffix of
  the identifier; \<open>now\<close> is that reading of \<^verbatim>\<open>Date.now()\<close>.
\<close>

definition createPositiveTestCase ::
  "GherkinUserStory \<Rightarrow> string \<Rightarrow> TestGenerationContext \<Rightarrow> nat \<Rightarrow> TestCase" where
  "createPositiveTestCase story module context now =
     \<lparr> tc_id = ''TC_'' @ s_id story @ ''_'' @ module @ ''_POS_'' @ showNat now,
       tc_title = ''Positive Test: '' @ s_description story @ '' - '' @ module,
       tc_description = ''Verify that '' @ toLowerCase (s_description story) @
          '' works correctly for '' @ module @ '' module'',
       tc_module = module,
       tc_userType = userType context,
       tc_priority = priorityOrMedium story,
       tc_tags = [''positive'', ''functional'', module] @ tagsOrEmpty story,
       tc_steps =
         [\<lparr> st_stepNumber = 1, st_action = ''Navigate to '' @ module @ '' section'',
            st_expectedResult = module @ '' page loads successfully'', st_testData = None \<rparr>,
          \<lparr> st_stepNumber = 2, st_action = stripKeyword ''given'' (s_given story),
            st_expectedResult = ''Preconditions are met'', st_testData = None \<rparr>,
          \<lparr> st_stepNumber = 3, st_action = stripKeyword ''when'' (s_when story),
            st_expectedResult = ''Action is performed successfully'', st_testData = None \<rparr>,
          \<lparr> st_stepNumber = 4, st_action = ''Verify the result'',
            st_expectedResult = stripKeyword ''then'' (s_then story), st_testData = None \<rparr>],
       tc_expectedResult = stripKeyword ''then'' (s_then story),
       tc_testData = None,
       tc_preconditions = Some
         [''User is logged in with appropriate permissions'',
          ''Access to '' @ module @ '' module is available'',
          ''System is in stable state''],
       tc_postconditions = None,
       tc_sourceStoryId = Some (s_id story) \<rparr>"

definition createNegativeTestCase ::
  "GherkinUserStory \<Rightarrow> string \<Rightarrow> TestGenerationContext \<Rightarrow> nat \<Rightarrow> TestCase" where
  "createNegativeTestCase story module context now =
     \<lparr> tc_id = ''TC_'' @ s_id story @ ''_'' @ module @ ''_NEG_'' @ showNat now,
       tc_title = ''Negative Test: '' @ s_description story @ '' - '' @ module,
       tc_description = ''Verify error handling when '' @ toLowerCase (s_description story) @
          '' fails in '' @ module @ '' module'',
       tc_module = module,
       tc_userType = userType context,
       tc_priority = priorityOrMedium story,
       tc_tags = [''negative'', ''error-handling'', module] @ tagsOrEmpty story,
       tc_steps =
         [\<lparr> st_stepNumber = 1, st_action = ''Navigate to '' @ module @ '' section'',
            st_expectedResult = module @ '' page loads successfully'', st_testData = None \<rparr>,
          \<lparr> st_stepNumber = 2, st_action = ''Set up invalid preconditions'',
            st_expectedResult = ''Invalid state is established'', st_testData = None \<rparr>,
          \<lparr> st_stepNumber = 3, st_action = stripKeyword ''when'' (s_when story),
            st_expectedResult = ''System shows appropriate error message'',
            st_testData = None \<rparr>,
          \<lparr> st_stepNumber = 4, st_action = ''Verify error handling'',
            st_expectedResult =
              ''Appropriate error message is displayed and system remains stable'',
            st_testData = None \<rparr>],
       tc_expectedResult =
         ''System handles error gracefully and shows meaningful error message'',
       tc_testData = None,
       tc_preconditions = Some
         [''User is logged in with appropriate permissions'',
          ''Invalid or insufficient data is prepared''],
       tc_postconditions = None,
       tc_sourceStoryId = Some (s_id story) \<rparr>"

definition createEdgeCaseTest ::
  "GherkinUserStory \<Rightarrow> string \<Rightarrow> TestGenerationContext \<Rightarrow> nat \<Rightarrow> TestCase" where
  "createEdgeCaseTest story module context now =
     \<lparr> tc_id = ''TC_'' @ s_id story @ ''_'' @ module @ ''_EDGE_'' @ showNat now,
       tc_title = ''Edge Case: '' @ s_description story @ '' - '' @ module,
       tc_description = ''Test boundary conditions for '' @ toLowerCase (s_description story) @
          '' in '' @ module @ '' module'',
       tc_module = module,
       tc_userType = userType context,
       tc_priority = Low,
       tc_tags = [''edge-case'', ''boundary'', module] @ tagsOrEmpty story,
       tc_steps =
         [\<lparr> st_stepNumber = 1, st_action = ''Navigate to '' @ module @ '' section'',
            st_expectedResult = module @ '' page loads successfully'', st_testData = None \<rparr>,
          \<lparr> st_stepNumber = 2, st_action = ''Set up boundary conditions (max/min values)'',
            st_expectedResult = ''Boundary data is prepared'', st_testData = None \<rparr>,
          \<lparr> st_stepNumber = 3,
            st_action = stripKeyword ''when'' (s_when story) @ '' with boundary values'',
            st_expectedResult = ''Action completes with boundary data'', st_testData = None \<rparr>,
          \<lparr> st_stepNumber = 4, st_action = ''Verify boundary behavior'',
            st_expectedResult = ''System handles boundary conditions correctly'',
            st_testData = None \<rparr>],
       tc_expectedResult = ''System processes boundary conditions appropriately'',
       tc_testData = None,
       tc_preconditions = Some
         [''User is logged in with appropriate permissions'',
          ''Boundary test data is available''],
       tc_postconditions = None,
       tc_sourceStoryId = Some (s_id story) \<rparr>"

text \<open>
  The two nested loops of \<^verbatim>\<open>MockAIProvider.generateTestCases\<close>. The state is the number of
  clock readings taken so far and the array \<^verbatim>\<open>testCases\<close>; \<open>clock k\<close> is the value of the
  \<open>k\<close>-th reading of \<^verbatim>\<open>Date.now()\<close>.
\<close>

fun forEachModule ::
  "(nat \<Rightarrow> nat) \<Rightarrow> TestGenerationContext \<Rightarrow> GherkinUserStory \<Rightarrow> string list
     \<Rightarrow> nat \<times> TestCase list \<Rightarrow> nat \<times> TestCase list" where
  "forEachModule clock context story [] state = state"
| "forEachModule clock context story (module # rest) (k, testCases) =
     (let positiveTest = createPositiveTestCase story module context (clock k);
          (k, testCases) = (Suc k, testCases @ [positiveTest]);
          (k, testCases) =
            (if includeNegativeTests context
             then (Suc k, testCases @ [createNegativeTestCase story module context (clock k)])
             else (k, testCases));
          edgeTest = createEdgeCaseTest story module context (clock k);
          (k, testCases) = (Suc k, testCases @ [edgeTest])
      in forEachModule clock context story rest (k, testCases))"

fun forEachStory ::
  "(nat \<Rightarrow> nat) \<Rightarrow> TestGenerationContext \<Rightarrow> GherkinUserStory list
     \<Rightarrow> nat \<times> TestCase list \<Rightarrow> nat \<times> TestCase list" where
  "forEachStory clock context [] state = state"
| "forEachStory clock context (story # rest) state =
     forEachStory clock context rest
       (forEachModule clock context story (selectedModules context) state)"

text \<open>
  \<^verbatim>\<open>countByModule\<close>: a \<^verbatim>\<open>reduce\<close> into the object \<^verbatim>\<open>{}\<close>, with \<^verbatim>\<open>acc[m] = (acc[m] || 0) + 1\<close>.
  Modules are arbitrary strings, and \<^verbatim>\<open>acc[m]\<close> also reads what the object inherits from
  \<^verbatim>\<open>Object.prototype\<close>. For a module named like one of its methods the first read gives a
  function, and \<^verbatim>\<open>function + 1\<close> is its text followed by \<^verbatim>\<open>1\<close> (the text is V8's); every
  later read gives that string, and another \<^verbatim>\<open>1\<close> is appended. For the module \<^verbatim>\<open>__proto__\<close>
  the read gives the prototype and the assignment of a string is ignored, so the object
  gets no such key. A tally is therefore a number or such a string.
\<close>

datatype tally = Count nat | Text string

definition prototypeMethods :: "string list" where
  "prototypeMethods =
     [''constructor'', ''hasOwnProperty'', ''isPrototypeOf'', ''propertyIsEnumerable'',
      ''toLocaleString'', ''toString'', ''valueOf'', ''__defineGetter__'',
      ''__defineSetter__'', ''__lookupGetter__'', ''__lookupSetter__'']"

definition inheritedText :: "string \<Rightarrow> string option" where
  "inheritedText m =
     (if m = ''constructor'' then Some ''function Object() { [native code] }''
      else if m \<in> set prototypeMethods then Some (''function '' @ m @ ''() { [native code] }'')
      else None)"

definition countModule :: "(string \<rightharpoonup> tally) \<Rightarrow> string \<Rightarrow> (string \<rightharpoonup> tally)" where
  "countModule acc m =
     (if m = ''__proto__'' then acc
      else (case acc m of
              Some (Count n) \<Rightarrow> acc(m \<mapsto> Count (n + 1))
            | Some (Text t) \<Rightarrow> acc(m \<mapsto> Text (t @ ''1''))
            | None \<Rightarrow>
                (case inheritedText m of
                   None \<Rightarrow> acc(m \<mapsto> Count 1)
                 | Some t \<Rightarrow> acc(m \<mapsto> Text (t @ ''1'')))))"

definition countByModule :: "TestCase list \<Rightarrow> (string \<rightharpoonup> tally)" where
  "countByModule testCases = foldl (\<lambda>acc t. countModule acc (tc_module t)) Map.empty testCases"

text \<open>
  \<^verbatim>\<open>countByPriority\<close>: the same \<^verbatim>\<open>reduce\<close>, keyed by the priority, which is one of four
  words that the object does not inherit.
\<close>

definition countByPriority :: "TestCase list \<Rightarrow> (Priority \<rightharpoonup> nat)" where
  "countByPriority testCases =
     foldl (\<lambda>acc t. acc(tc_priority t \<mapsto> (case acc (tc_priority t) of None \<Rightarrow> 0 | Some n \<Rightarrow> n) + 1))
       Map.empty testCases"

text \<open>
  \<^verbatim>\<open>TestGenerationResult\<close> of the mock provider; the fields carry the prefix \<open>g_\<close>. The
  timestamp of the metadata is kept as the clock reading it is rendered from.
\<close>

record Summary =
  g_totalGenerated :: nat
  g_byModule :: "string \<rightharpoonup> tally"
  g_byPriority :: "Priority \<rightharpoonup> nat"
  g_generationTime :: int

record Metadata =
  g_provider :: string
  g_model :: string
  g_timestamp :: nat
  g_context :: TestGenerationContext

record TestGenerationResult =
  g_success :: bool
  g_testCases :: "TestCase list"
  g_summary :: Summary
  g_errors :: "string list"
  g_metadata :: Metadata

text \<open>
  \<^verbatim>\<open>MockAIProvider.generateTestCases\<close>. Nothing in the \<^verbatim>\<open>try\<close> block throws on a context of the
  declared type, so the \<^verbatim>\<open>catch\<close> block has no counterpart here.
\<close>

definition MockAIProvider_generateTestCases ::
  "(nat \<Rightarrow> nat) \<Rightarrow> TestGenerationContext \<Rightarrow> TestGenerationResult" where
  "MockAIProvider_generateTestCases clock context =
     (let startTime = clock 0;
          (k, testCases) = forEachStory clock context (userStories context) (1, []);
          endTime = clock k;
          generationTime = int endTime - int startTime
      in \<lparr> g_success = True,
           g_testCases = testCases,
           g_summary = \<lparr> g_totalGenerated = length testCases,
                         g_byModule = countByModule testCases,
                         g_byPriority = countByPriority testCases,
                         g_generationTime = generationTime \<rparr>,
           g_errors = [],
           g_metadata = \<lparr> g_provider = ''Mock AI Provider'', g_model = ''mock-v1.0'',
                          g_timestamp = clock (Suc k), g_context = context \<rparr> \<rparr>)"
section \<open>The provider registry\<close>

text \<open>
  The contract of \<^verbatim>\<open>BaseAIProvider\<close>. A provider is kept as the outcome of its configuration
  probe and its generation function; a thrown \<^verbatim>\<open>Error\<close> is \<open>Inl\<close> of its message. The result
  type is a parameter: the two versions of the service carry different result shapes.
\<close>

record 'r BaseAIProvider =
  provider_name :: string
  provider_model :: string
  validateConfiguration :: bool
  generateTestCases :: "TestGenerationContext \<Rightarrow> string + 'r"

record 'r AIService =
  providers :: "string \<rightharpoonup> 'r BaseAIProvider"
  defaultProvider :: string

text \<open>
  The calls a service makes on its providers, by registry key, in order. They are what
  "invoking a provider" means below.
\<close>

datatype call = ValidateConfiguration string | GenerateTestCases string

text \<open>\<^verbatim>\<open>AIService.generateTestCases(providerName, context)\<close>, the version with named providers.\<close>

definition AIService_generateTestCases ::
  "'r AIService \<Rightarrow> string \<Rightarrow> TestGenerationContext \<Rightarrow> (string + 'r) \<times> call list" where
  "AIService_generateTestCases service providerName context =
     (case providers service providerName of
        None \<Rightarrow> (Inl (''Provider '' @ providerName @ '' not found''), [])
      | Some provider \<Rightarrow>
          if \<not> validateConfiguration provider
          then (Inl (''Provider '' @ providerName @ '' configuration is invalid''),
                [ValidateConfiguration providerName])
          else (generateTestCases provider context,
                [ValidateConfiguration providerName, GenerateTestCases providerName]))"

text \<open>
  \<^verbatim>\<open>AIService.generateTestCases(context, providerName?)\<close>, the older version:
  \<^verbatim>\<open>providerName || this.defaultProvider\<close> selects the default for a missing or empty name.
\<close>

definition AIService_generateTestCases_copy ::
  "'r AIService \<Rightarrow> TestGenerationContext \<Rightarrow> string option \<Rightarrow> (string + 'r) \<times> call list" where
  "AIService_generateTestCases_copy service context providerName =
     (let selectedProvider =
            (case providerName of
               None \<Rightarrow> defaultProvider service
             | Some n \<Rightarrow> if n = [] then defaultProvider service else n)
      in case providers service selectedProvider of
           None \<Rightarrow>
             (Inl (''AI provider '' @ [CHR 0x27] @ selectedProvider @ [CHR 0x27] @ '' not found''),
              [])
         | Some provider \<Rightarrow>
             if \<not> validateConfiguration provider
             then (Inl (''AI provider '' @ [CHR 0x27] @ selectedProvider @ [CHR 0x27] @
                        '' is not properly configured''),
                   [ValidateConfiguration selectedProvider])
             else (generateTestCases provider context,
                   [ValidateConfiguration selectedProvider, GenerateTestCases selectedProvider]))"

section \<open>The remote adapters\<close>

text \<open>
  The adapters return object literals and pass on whatever the parsed response holds, so
  their values are kept as untyped values: an object is the list of its properties.
  Numbers are integers here; the adapters only test a number for being zero.
\<close>

datatype jsval =
    JUndefined | JNull | JBool bool | JNum int | JStr string
  | JArr "jsval list" | JObj "(string \<times> jsval) list"

text \<open>Truthiness, as \<^verbatim>\<open>x || []\<close> tests it.\<close>

fun truthyJ :: "jsval \<Rightarrow> bool" where
  "truthyJ JUndefined = False"
| "truthyJ JNull = False"
| "truthyJ (JBool b) = b"
| "truthyJ (JNum n) = (n \<noteq> 0)"
| "truthyJ (JStr s) = (s \<noteq> [])"
| "truthyJ (JArr xs) = True"
| "truthyJ (JObj kvs) = True"

text \<open>
  Reading a property: \<^verbatim>\<open>undefined\<close> when it is absent, a \<^verbatim>\<open>TypeError\<close> on \<^verbatim>\<open>null\<close> and
  \<^verbatim>\<open>undefined\<close> (with the wording of V8). A later binding of a key overrides an earlier one.
\<close>

fun getProp :: "jsval \<Rightarrow> string \<Rightarrow> string + jsval" where
  "getProp JUndefined k =
     Inl (''Cannot read properties of undefined (reading '' @ [CHR 0x27] @ k @ [CHR 0x27] @ '')'')"
| "getProp JNull k =
     Inl (''Cannot read properties of null (reading '' @ [CHR 0x27] @ k @ [CHR 0x27] @ '')'')"
| "getProp (JObj kvs) k = Inr (case map_of (rev kvs) k of None \<Rightarrow> JUndefined | Some v \<Rightarrow> v)"
| "getProp (JArr xs) k = Inr (if k = ''length'' then JNum (int (length xs)) else JUndefined)"
| "getProp (JStr s) k = Inr (if k = ''length'' then JNum (int (length s)) else JUndefined)"
| "getProp (JBool b) k = Inr JUndefined"
| "getProp (JNum n) k = Inr JUndefined"

text \<open>
  \<^verbatim>\<open>try { body } catch (error) { handler }\<close>. Whatever is thrown is taken to be an
  \<^verbatim>\<open>Error\<close> object and is kept as its message, which is all the handlers read.
\<close>

definition tryCatch :: "'e + 'a \<Rightarrow> ('e \<Rightarrow> 'f + 'a) \<Rightarrow> 'f + 'a" where
  "tryCatch body handler = (case body of Inl e \<Rightarrow> handler e | Inr v \<Rightarrow> Inr v)"

text \<open>\<^verbatim>\<open>const testCases = parsedResponse.testCases || []\<close>, then the result object.\<close>

definition testCasesOf :: "jsval \<Rightarrow> string + jsval" where
  "testCasesOf parsedResponse =
     (case getProp parsedResponse ''testCases'' of
        Inl e \<Rightarrow> Inl e
      | Inr v \<Rightarrow> Inr (if truthyJ v then v else JArr []))"

definition lengthOf :: "jsval \<Rightarrow> jsval" where
  "lengthOf v = (case getProp v ''length'' of Inl e \<Rightarrow> JUndefined | Inr n \<Rightarrow> n)"

text \<open>The object the \<^verbatim>\<open>catch\<close> block of both adapters returns.\<close>

definition failureResult :: "string \<Rightarrow> int \<Rightarrow> string \<Rightarrow> jsval" where
  "failureResult name generationTime message =
     JObj [(''testCases'', JArr []),
           (''generationTime'', JNum generationTime),
           (''provider'', JStr name),
           (''metadata'', JObj [(''totalGenerated'', JNum 0),
                               (''successful'', JNum 0),
                               (''failed'', JNum 1),
                               (''warnings'', JArr [JStr (''Generation failed: '' @ message)])])]"

text \<open>
  What the OpenAI adapter reads of a completion: \<^verbatim>\<open>choices[0]?.message?.content\<close> (\<open>None\<close> for
  \<^verbatim>\<open>null\<close> and \<^verbatim>\<open>undefined\<close>) and \<^verbatim>\<open>usage?.total_tokens\<close>.
\<close>

record ChatCompletion =
  content :: "string option"
  total_tokens :: "int option"

text \<open>
  \<^verbatim>\<open>OpenAIProvider.generateTestCases\<close>. The outside world is three parameters: \<open>clock k\<close>,
  the \<open>k\<close>-th reading of \<^verbatim>\<open>Date.now()\<close>; \<open>create\<close>, the completion call on the prompt built
  from the context (\<open>Inl\<close> when it rejects); \<open>JSON_parse\<close>, the parser (\<open>Inl\<close> for its
  \<^verbatim>\<open>SyntaxError\<close>). An error of the \<^verbatim>\<open>try\<close> block carries the number of clock readings taken
  before it, since the \<^verbatim>\<open>catch\<close> block reads the clock again.
\<close>

definition OpenAIProvider_try ::
  "(nat \<Rightarrow> nat) \<Rightarrow> (string \<Rightarrow> string + jsval) \<Rightarrow>
   (TestGenerationContext \<Rightarrow> string + ChatCompletion) \<Rightarrow> string \<Rightarrow> TestGenerationContext
     \<Rightarrow> (string \<times> nat) + jsval" where
  "OpenAIProvider_try clock JSON_parse create model context =
     (let startTime = clock 0 in
      case create context of
        Inl e \<Rightarrow> Inl (e, 1)
      | Inr response \<Rightarrow>
          (let generationTime = int (clock 1) - int startTime in
           case content response of
             None \<Rightarrow> Inl (''No content received from OpenAI'', 2)
           | Some c \<Rightarrow>
               if c = [] then Inl (''No content received from OpenAI'', 2)
               else (case JSON_parse c of
                       Inl e \<Rightarrow> Inl (e, 2)
                     | Inr parsedResponse \<Rightarrow>
                         (case testCasesOf parsedResponse of
                            Inl e \<Rightarrow> Inl (e, 2)
                          | Inr testCases \<Rightarrow>
                              Inr (JObj
                                [(''testCases'', testCases),
                                 (''generationTime'', JNum generationTime),
                                 (''tokensUsed'',
                                    (case total_tokens response of
                                       None \<Rightarrow> JUndefined | Some n \<Rightarrow> JNum n)),
                                 (''model'', JStr model),
                                 (''provider'', JStr ''OpenAI''),
                                 (''metadata'', JObj
                                    [(''totalGenerated'', lengthOf testCases),
                                     (''successful'', lengthOf testCases),
                                     (''failed'', JNum 0),
                                     (''warnings'', JArr [])])])))))"

definition OpenAIProvider_generateTestCases ::
  "(nat \<Rightarrow> nat) \<Rightarrow> (string \<Rightarrow> string + jsval) \<Rightarrow>
   (TestGenerationContext \<Rightarrow> string + ChatCompletion) \<Rightarrow> string \<Rightarrow> TestGenerationContext
     \<Rightarrow> string + jsval" where
  "OpenAIProvider_generateTestCases clock JSON_parse create model context =
     tryCatch (OpenAIProvider_try clock JSON_parse create model context)
       (\<lambda>(message, k). Inr (failureResult ''OpenAI'' (int (clock k) - int (clock 0)) message))"

text \<open>
  \<^verbatim>\<open>content.replace(/```json\n?|\n?```/g, '')\<close>: scanning from the left, an opening fence with
  an optional newline after it and a closing fence with an optional newline before it are
  dropped.
\<close>

function removeFences :: "string \<Rightarrow> string" where
  "removeFences [] = []"
| "removeFences (c # cs) =
     (if startsWith (c # cs) ''```json'' then
        (if startsWith (drop 7 (c # cs)) [CHR 0x0A] then removeFences (drop 8 (c # cs))
         else removeFences (drop 7 (c # cs)))
      else if startsWith (c # cs) (CHR 0x0A # ''```'') then removeFences (drop 4 (c # cs))
      else if startsWith (c # cs) ''```'' then removeFences (drop 3 (c # cs))
      else c # removeFences cs)"
  by pat_completeness auto
termination
  by (relation "measure length") auto

text \<open>
  \<^verbatim>\<open>GeminiProvider.generateTestCases\<close>; \<open>generateContent\<close> is the call together with the reading
  of the text of its response.
\<close>

definition GeminiProvider_try ::
  "(nat \<Rightarrow> nat) \<Rightarrow> (string \<Rightarrow> string + jsval) \<Rightarrow>
   (TestGenerationContext \<Rightarrow> string + string) \<Rightarrow> string \<Rightarrow> TestGenerationContext
     \<Rightarrow> (string \<times> nat) + jsval" where
  "GeminiProvider_try clock JSON_parse generateContent model context =
     (let startTime = clock 0 in
      case generateContent context of
        Inl e \<Rightarrow> Inl (e, 1)
      | Inr c \<Rightarrow>
          (let generationTime = int (clock 1) - int startTime;
               cleanedContent = trim (removeFences c)
           in case JSON_parse cleanedContent of
                Inl e \<Rightarrow> Inl (e, 2)
              | Inr parsedResponse \<Rightarrow>
                  (case testCasesOf parsedResponse of
                     Inl e \<Rightarrow> Inl (e, 2)
                   | Inr testCases \<Rightarrow>
                       Inr (JObj
                         [(''testCases'', testCases),
                          (''generationTime'', JNum generationTime),
                          (''model'', JStr model),
                          (''provider'', JStr ''Google Gemini''),
                          (''metadata'', JObj
                             [(''totalGenerated'', lengthOf testCases),
                              (''successful'', lengthOf testCases),
                              (''failed'', JNum 0),
                              (''warnings'', JArr [])])]))))"

definition GeminiProvider_generateTestCases ::
  "(nat \<Rightarrow> nat) \<Rightarrow> (string \<Rightarrow> string + jsval) \<Rightarrow>
   (TestGenerationContext \<Rightarrow> string + string) \<Rightarrow> string \<Rightarrow> TestGenerationContext
     \<Rightarrow> string + jsval" where
  "GeminiProvider_generateTestCases clock JSON_parse generateContent model context =
     tryCatch (GeminiProvider_try clock JSON_parse generateContent model context)
       (\<lambda>(message, k).
          Inr (failureResult ''Google Gemini'' (int (clock k) - int (clock 0)) message))"

section \<open>Properties of the header mapper\<close>

lemma forEachHeader_append:
  "forEachHeader (xs @ ys) index mapping =
   forEachHeader ys (index + length xs) (forEachHeader xs index mapping)"
  by (induction xs arbitrary: index mapping) simp_all

lemma forEachHeader_snoc:
  "forEachHeader (xs @ [x]) index mapping =
   mapHeader (forEachHeader xs index mapping) x (index + length xs)"
  by (simp add: forEachHeader_append)

lemma forEachHeader_last_match:
  "forEachHeader headers 0 Map.empty field = Some i \<longleftrightarrow>
     i < length headers \<and> headerField (headers ! i) = Some field \<and>
     (\<forall>j. i < j \<and> j < length headers \<longrightarrow> headerField (headers ! j) \<noteq> Some field)"
proof (induction headers rule: rev_induct)
  case Nil
  show ?case by simp
next
  case (snoc x xs)
  let ?m = "forEachHeader xs 0 Map.empty"
  have step: "forEachHeader (xs @ [x]) 0 Map.empty field =
      (if headerField x = Some field then Some (length xs) else ?m field)"
    by (auto simp: forEachHeader_snoc mapHeader_def split: option.splits)
  show ?case
  proof (cases "headerField x = Some field")
    case True
    have "i < length (xs @ [x]) \<and> headerField ((xs @ [x]) ! i) = Some field \<and>
          (\<forall>j. i < j \<and> j < length (xs @ [x]) \<longrightarrow> headerField ((xs @ [x]) ! j) \<noteq> Some field)
          \<longleftrightarrow> i = length xs"
    proof
      assume a: "i < length (xs @ [x]) \<and> headerField ((xs @ [x]) ! i) = Some field \<and>
          (\<forall>j. i < j \<and> j < length (xs @ [x]) \<longrightarrow> headerField ((xs @ [x]) ! j) \<noteq> Some field)"
      show "i = length xs"
      proof (rule ccontr)
        assume "i \<noteq> length xs"
        with a have lt: "i < length xs" by simp
        from a have "\<forall>j. i < j \<and> j < length (xs @ [x]) \<longrightarrow>
            headerField ((xs @ [x]) ! j) \<noteq> Some field" by blast
        then have "i < length xs \<and> length xs < length (xs @ [x]) \<longrightarrow>
            headerField ((xs @ [x]) ! length xs) \<noteq> Some field" by (rule spec)
        with lt have "headerField ((xs @ [x]) ! length xs) \<noteq> Some field" by simp
        with True show False by simp
      qed
    next
      assume "i = length xs"
      with True show "i < length (xs @ [x]) \<and> headerField ((xs @ [x]) ! i) = Some field \<and>
          (\<forall>j. i < j \<and> j < length (xs @ [x]) \<longrightarrow> headerField ((xs @ [x]) ! j) \<noteq> Some field)"
        by auto
    qed
    with True step show ?thesis by auto
  next
    case False
    have "i < length (xs @ [x]) \<and> headerField ((xs @ [x]) ! i) = Some field \<and>
          (\<forall>j. i < j \<and> j < length (xs @ [x]) \<longrightarrow> headerField ((xs @ [x]) ! j) \<noteq> Some field)
          \<longleftrightarrow>
          i < length xs \<and> headerField (xs ! i) = Some field \<and>
          (\<forall>j. i < j \<and> j < length xs \<longrightarrow> headerField (xs ! j) \<noteq> Some field)"
      (is "?L \<longleftrightarrow> ?R")
    proof
      assume l: ?L
      then have "i \<noteq> length xs" using False by auto
      with l have i: "i < length xs" by simp
      with l have hf: "headerField (xs ! i) = Some field" by (simp add: nth_append)
      have "headerField (xs ! j) \<noteq> Some field" if "i < j" "j < length xs" for j
      proof -
        from l have "\<forall>j. i < j \<and> j < length (xs @ [x]) \<longrightarrow>
            headerField ((xs @ [x]) ! j) \<noteq> Some field" by blast
        then have "i < j \<and> j < length (xs @ [x]) \<longrightarrow>
            headerField ((xs @ [x]) ! j) \<noteq> Some field" by (rule spec)
        with that have "headerField ((xs @ [x]) ! j) \<noteq> Some field" by simp
        with that show ?thesis by (simp add: nth_append)
      qed
      with i hf show ?R by blast
    next
      assume r: ?R
      then have i: "i < length (xs @ [x])" by simp
      from r have hf: "headerField ((xs @ [x]) ! i) = Some field" by (simp add: nth_append)
      have "headerField ((xs @ [x]) ! j) \<noteq> Some field" if "i < j" "j < length (xs @ [x])" for j
      proof (cases "j = length xs")
        case True
        with False show ?thesis by simp
      next
        case False
        with that have jlt: "j < length xs" by simp
        from r have "\<forall>j. i < j \<and> j < length xs \<longrightarrow> headerField (xs ! j) \<noteq> Some field"
          by blast
        then have "i < j \<and> j < length xs \<longrightarrow> headerField (xs ! j) \<noteq> Some field" by (rule spec)
        with that jlt show ?thesis by (simp add: nth_append)
      qed
      with i hf show ?L by blast
    qed
    with False step snoc.IH show ?thesis by simp
  qed
qed

lemma mapHeader_keeps: "mapping f \<noteq> None \<Longrightarrow> mapHeader mapping header index f \<noteq> None"
  by (simp add: mapHeader_def split: option.splits)

lemma forEachHeader_keeps:
  "mapping f \<noteq> None \<Longrightarrow> forEachHeader headers index mapping f \<noteq> None"
proof (induction headers arbitrary: index mapping)
  case Nil
  then show ?case by simp
next
  case (Cons header rest)
  from Cons.prems have "mapHeader mapping header index f \<noteq> None" by (rule mapHeader_keeps)
  then show ?case by (simp add: Cons.IH)
qed

lemma forEachHeader_finds:
  assumes "header \<in> set headers" and "headerField header = Some f"
  shows "forEachHeader headers index mapping f \<noteq> None"
  using assms(1)
proof (induction headers arbitrary: index mapping)
  case Nil
  then show ?case by simp
next
  case (Cons h rest)
  show ?case
  proof (cases "h = header")
    case True
    then have "mapHeader mapping h index f \<noteq> None"
      using assms(2) by (simp add: mapHeader_def)
    then show ?thesis by (simp add: forEachHeader_keeps)
  next
    case False
    with Cons.prems have "header \<in> set rest" by simp
    then show ?thesis by (simp add: Cons.IH)
  qed
qed

text \<open>
  A header row is accepted when each required field is the field of some header cell: the
  order of the columns and further columns do not matter.
\<close>

lemma detectColumnMapping_accepts:
  assumes "\<forall>f \<in> set requiredFields. \<exists>header \<in> set headerRow. headerField header = Some f"
  shows "\<exists>mapping. detectColumnMapping headerRow = Some mapping \<and>
           (\<forall>f \<in> set requiredFields. mapping f \<noteq> None)"
proof -
  have "\<forall>f \<in> set requiredFields. forEachHeader headerRow 0 Map.empty f \<noteq> None"
    using assms forEachHeader_finds by blast
  then show ?thesis
    unfolding detectColumnMapping_def Let_def by (simp add: list_all_iff)
qed

text \<open>
  In the older mapper a field held by a column other than the first is never reassigned.
\<close>

lemma firstFree_free:
  "firstFree ps mapping s = Some key \<Longrightarrow> mapping key = None \<or> mapping key = Some 0"
  by (induction ps mapping s rule: firstFree.induct) (auto split: if_splits)

lemma mapHeader_copy_keeps:
  assumes "mapping f = Some i" and "i \<noteq> 0"
  shows "mapHeader_copy mapping header index f = Some i"
proof (cases header)
  case (Str h)
  show ?thesis
  proof (cases "firstFree patterns_copy mapping (trim h)")
    case None
    with Str assms show ?thesis by simp
  next
    case (Some key)
    from firstFree_free [OF Some] assms have "key \<noteq> f" by auto
    with Str Some assms show ?thesis by simp
  qed
next
  case (Other b r)
  with assms show ?thesis by simp
qed

lemma forEachHeader_copy_keeps:
  assumes "mapping f = Some i" and "i \<noteq> 0"
  shows "forEachHeader_copy headers index mapping f = Some i"
  using assms(1)
proof (induction headers arbitrary: index mapping)
  case Nil
  then show ?case by simp
next
  case (Cons header rest)
  from Cons.prems assms(2) have "mapHeader_copy mapping header index f = Some i"
    by (rule mapHeader_copy_keeps)
  then show ?case by (simp add: Cons.IH)
qed

text \<open>
  C1. The claim is first-match-wins per field: a later column whose header matches a field
  that an earlier column holds leaves the earlier assignment alone. On the header row
  Description, Given, When, Then, Title both mappers give the description to column 4, not
  to column 0: the current one has no guard and lets the last matching column win; the
  older one has the guard \<^verbatim>\<open>!mapping[key]\<close>, which also holds for a field held by column 0.
\<close>

theorem detectColumnMapping_later_column_overrides:
  "Option.bind (detectColumnMapping
       [Str ''Description'', Str ''Given'', Str ''When'', Str ''Then'', Str ''Title''])
     (\<lambda>mapping. mapping K_description) = Some 4 \<and>
   Option.bind (detectColumnMapping_copy
       [Str ''Description'', Str ''Given'', Str ''When'', Str ''Then'', Str ''Title''])
     (\<lambda>mapping. mapping K_description) = Some 4"
  by code_simp

text \<open>
  In the older mapper the guard does its work for a field held by any column but the first:
  with a column in front, the description stays with the column that claimed it.
\<close>

lemma detectColumnMapping_copy_keeps_later_claim:
  "Option.bind (detectColumnMapping_copy
       [Str ''Priority'', Str ''Description'', Str ''Given'', Str ''When'', Str ''Then'',
        Str ''Title''])
     (\<lambda>mapping. mapping K_description) = Some 1"
  by code_simp

text \<open>
  What the current mapper does instead, in general: a column whose header is a non-empty
  string goes to the first field, in the fixed enumeration order, whose pattern matches the
  trimmed, lowercased header, and takes that field over from any earlier column. In the
  mapping returned a field holds column \<open>i\<close> exactly when \<open>i\<close> is the last column that goes
  to this field.
\<close>

lemma detectColumnMapping_last_match_wins:
  assumes "detectColumnMapping headerRow = Some mapping"
  shows "mapping field = Some i \<longleftrightarrow>
           i < length headerRow \<and> headerField (headerRow ! i) = Some field \<and>
           (\<forall>j. i < j \<and> j < length headerRow \<longrightarrow> headerField (headerRow ! j) \<noteq> Some field)"
proof -
  from assms have "mapping = forEachHeader headerRow 0 Map.empty"
    unfolding detectColumnMapping_def Let_def by (simp split: if_splits)
  then show ?thesis by (simp only: forEachHeader_last_match)
qed

lemma detectColumnMapping_last_match_wins_example:
  "Option.bind (detectColumnMapping
       [Str ''Title'', Str ''Given'', Str ''When'', Str ''Then'', Str ''Description'',
        Str '' Story Description ''])
     (\<lambda>mapping. mapping K_description) = Some 5"
proof -
  let ?row = "[Str ''Title'', Str ''Given'', Str ''When'', Str ''Then'', Str ''Description'',
        Str '' Story Description '']"
  have "detectColumnMapping ?row \<noteq> None" by code_simp
  then obtain mapping where m: "detectColumnMapping ?row = Some mapping" by blast
  have f: "headerField (Str '' Story Description '') = Some K_description" by code_simp
  have "mapping K_description = Some 5"
    unfolding detectColumnMapping_last_match_wins [OF m, of K_description 5]
    using f by auto
  with m show ?thesis by simp
qed

text \<open>
  C2. The claim is that a header row naming all four required concepts by recognized
  synonyms is accepted. The pattern of \<open>then\<close> lists \<open>outcome\<close>, but the pattern of \<open>soThat\<close>
  lists it too and comes first, so the header row Description, Given, When, Outcome is
  rejected by both mappers.
\<close>

theorem detectColumnMapping_outcome_rejected:
  "map_option (\<lambda>p. test p ''outcome'') (map_of columnPatterns K_then) = Some True \<and>
   detectColumnMapping [Str ''Description'', Str ''Given'', Str ''When'', Str ''Outcome''] = None \<and>
   map_option (\<lambda>p. test p ''Outcome'') (map_of patterns_copy K_then) = Some True \<and>
   detectColumnMapping_copy [Str ''Description'', Str ''Given'', Str ''When'', Str ''Outcome''] = None"
  by code_simp

section \<open>Properties of the batch parser\<close>

lemma forEachRow_append:
  "forEachRow (xs @ ys) m i acc = forEachRow ys m (i + length xs) (forEachRow xs m i acc)"
  by (induction xs arbitrary: i acc) (auto split: sum.splits option.splits)

text \<open>The report of a batch, seen from one of its rows: the rows before it, the row, the rest.\<close>

lemma parseDataRows_at:
  assumes "i < length dataRows"
  shows "parseDataRows dataRows mapping =
         forEachRow (drop (Suc i) dataRows) mapping (Suc i)
           (forEachRow [dataRows ! i] mapping i (parseDataRows (take i dataRows) mapping))"
proof -
  have split: "dataRows = take i dataRows @ [dataRows ! i] @ drop (Suc i) dataRows"
    using assms by (simp add: id_take_nth_drop)
  have "parseDataRows dataRows mapping =
        forEachRow (take i dataRows @ [dataRows ! i] @ drop (Suc i) dataRows) mapping 0 ([], [])"
    unfolding parseDataRows_def using split by simp
  also have "\<dots> = forEachRow ([dataRows ! i] @ drop (Suc i) dataRows) mapping i
                     (parseDataRows (take i dataRows) mapping)"
    unfolding parseDataRows_def using assms by (simp only: forEachRow_append) simp
  also have "\<dots> = forEachRow (drop (Suc i) dataRows) mapping (Suc i)
           (forEachRow [dataRows ! i] mapping i (parseDataRows (take i dataRows) mapping))"
    by (simp only: forEachRow_append) simp
  finally show ?thesis .
qed

text \<open>
  C3. The claim: a data row in which at least one but not all of the four required cells
  are empty after trimming gives exactly one error and no record, and the error names the
  first empty cell in the order description, given, when, then. A cell that holds the
  number 0 or the boolean \<^verbatim>\<open>false\<close> is not empty when stringified and trimmed, but
  \<^verbatim>\<open>getCellValue\<close> tests \<^verbatim>\<open>value ? String(value).trim() : ''\<close> and so takes it as empty. With
  the description in such a cell and the given cell empty, the error names the description
  and not the given; with the description and the given in such cells and the other two
  empty, the row is skipped without any error.
\<close>

theorem parseDataRows_falsy_cell_taken_as_empty:
  "trim (String (Other False ''0'')) = ''0'' \<and>
   trim (String (Other False ''false'')) = ''false'' \<and>
   parseDataRows [[Other False ''0'', Str [], Str ''When w'', Str ''Then t'']]
      [K_description \<mapsto> 0, K_given \<mapsto> 1, K_when \<mapsto> 2, K_then \<mapsto> 3] =
     ([], [''Row 2: Description is required'']) \<and>
   parseDataRows [[Other False ''0'', Other False ''false'', Str [], Str []]]
      [K_description \<mapsto> 0, K_given \<mapsto> 1, K_when \<mapsto> 2, K_then \<mapsto> 3] =
     ([], [])"
  by (simp add: getCellValue_def trim_def isWhiteSpace_def parseDataRows_def parseRow_def
        Let_def showNat.simps digitChar_def)

text \<open>
  With "empty" read as \<^verbatim>\<open>getCellValue\<close> reads it, the row-scoped error is as claimed: a data
  row at 0-based index \<open>i\<close> in which at least one but not all of the four required values
  are empty leaves the records collected so far unchanged and appends exactly one error,
  \<open>Row (i + 2): <field> is required\<close>, where the field is the first empty one in the order
  description, given, when, then (worded "Description", "Given condition", "When action",
  "Then result"). The rows after it are then processed from that state.
\<close>

lemma parseDataRows_missing_required_field:
  assumes i: "i < length dataRows"
    and d: "d = getCellValue (dataRows ! i) (mapping K_description)"
    and g: "g = getCellValue (dataRows ! i) (mapping K_given)"
    and w: "w = getCellValue (dataRows ! i) (mapping K_when)"
    and t: "t = getCellValue (dataRows ! i) (mapping K_then)"
    and some: "d = [] \<or> g = [] \<or> w = [] \<or> t = []"
    and notall: "\<not> (d = [] \<and> g = [] \<and> w = [] \<and> t = [])"
    and before: "before = parseDataRows (take i dataRows) mapping"
  shows "parseDataRows dataRows mapping =
         forEachRow (drop (Suc i) dataRows) mapping (Suc i)
           (fst before,
            snd before @
              [''Row '' @ showNat (i + 2) @ '': '' @
               (if d = [] then ''Description''
                else if g = [] then ''Given condition''
                else if w = [] then ''When action''
                else ''Then result'') @ '' is required''])"
proof -
  let ?field = "if d = [] then ''Description''
                else if g = [] then ''Given condition''
                else if w = [] then ''When action''
                else ''Then result''"
  have row: "parseRow (dataRows ! i) mapping (i + 2) = Inl (?field @ '' is required'')"
    using some notall unfolding parseRow_def d g w t by (auto simp: Let_def)
  have "forEachRow [dataRows ! i] mapping i before =
        (fst before, snd before @ [''Row '' @ showNat (i + 2) @ '': '' @ ?field @ '' is required''])"
    by (cases before) (simp add: row del: add_2_eq_Suc add_2_eq_Suc')
  then show ?thesis
    using parseDataRows_at [OF i, of mapping] before by simp
qed

lemma parseDataRows_missing_required_field_example:
  "parseDataRows
      [[Str ''X'', Str ''Given A'', Str ''When B'', Str ''Then C''],
       [Str ''Y'', Str ''Given A'', Str '' '', Str ''Then C''],
       [Str [], Str [], Str [], Str []]]
      [K_description \<mapsto> 0, K_given \<mapsto> 1, K_when \<mapsto> 2, K_then \<mapsto> 3]
   = (fst (parseDataRows [[Str ''X'', Str ''Given A'', Str ''When B'', Str ''Then C'']]
             [K_description \<mapsto> 0, K_given \<mapsto> 1, K_when \<mapsto> 2, K_then \<mapsto> 3]),
      [''Row 3: When action is required''])"
  using parseDataRows_missing_required_field
    [of 1 "[[Str ''X'', Str ''Given A'', Str ''When B'', Str ''Then C''],
            [Str ''Y'', Str ''Given A'', Str '' '', Str ''Then C''],
            [Str [], Str [], Str [], Str []]]"
        "''Y''" "[K_description \<mapsto> 0, K_given \<mapsto> 1, K_when \<mapsto> 2, K_then \<mapsto> 3]"
        "''Given A''" "[]" "''Then C''"
        "parseDataRows [[Str ''X'', Str ''Given A'', Str ''When B'', Str ''Then C'']]
           [K_description \<mapsto> 0, K_given \<mapsto> 1, K_when \<mapsto> 2, K_then \<mapsto> 3]"]
  by (simp add: getCellValue_def trim_def isWhiteSpace_def parseDataRows_def parseRow_def
        Let_def showNat.simps digitChar_def)

text \<open>
  C4. A data row whose four required cells are all empty after extraction and trimming
  adds neither a record nor an error, whatever its other cells hold: the batch continues
  with the rows after it from the state the rows before it left.
\<close>

theorem parseDataRows_blank_row_skipped:
  assumes i: "i < length dataRows"
    and d: "getCellValue (dataRows ! i) (mapping K_description) = []"
    and g: "getCellValue (dataRows ! i) (mapping K_given) = []"
    and w: "getCellValue (dataRows ! i) (mapping K_when) = []"
    and t: "getCellValue (dataRows ! i) (mapping K_then) = []"
  shows "parseDataRows dataRows mapping =
         forEachRow (drop (Suc i) dataRows) mapping (Suc i)
           (parseDataRows (take i dataRows) mapping)"
proof -
  have row: "parseRow (dataRows ! i) mapping (i + 2) = Inr None"
    unfolding parseRow_def by (simp add: d g w t)
  have "forEachRow [dataRows ! i] mapping i (parseDataRows (take i dataRows) mapping) =
        parseDataRows (take i dataRows) mapping"
    by (cases "parseDataRows (take i dataRows) mapping")
       (simp add: row del: add_2_eq_Suc add_2_eq_Suc')
  then show ?thesis
    using parseDataRows_at [OF i, of mapping] by simp
qed

theorem parseDataRows_blank_row_skipped_witness:
  "parseDataRows [[Str [], Str ''   '', Other False ''0'', Str [], Str ''a note'']]
      [K_description \<mapsto> 0, K_given \<mapsto> 1, K_when \<mapsto> 2, K_then \<mapsto> 3, K_notes \<mapsto> 4]
   = ([], [])"
  using parseDataRows_blank_row_skipped
    [of 0 "[[Str [], Str ''   '', Other False ''0'', Str [], Str ''a note'']]"
        "[K_description \<mapsto> 0, K_given \<mapsto> 1, K_when \<mapsto> 2, K_then \<mapsto> 3, K_notes \<mapsto> 4]"]
  by (simp add: getCellValue_def trim_def isWhiteSpace_def parseDataRows_def)

text \<open>
  C5. In every report of \<^verbatim>\<open>parseExcelFile\<close>, \<open>validRows\<close> is the number of records in \<open>data\<close>,
  and \<open>success\<close> holds exactly when \<open>errors\<close> is empty.
\<close>

theorem parseExcelFile_report_invariant:
  "validRows (parseExcelFile decoded) = length (data (parseExcelFile decoded)) \<and>
   (success (parseExcelFile decoded) \<longleftrightarrow> errors (parseExcelFile decoded) = [])"
  unfolding parseExcelFile_def
  by (simp add: Let_def split: sum.split option.split)

theorem parseExcelFile_report_invariant_witness:
  "validRows (parseExcelFile (Inr
      [[Str ''Title'', Str ''Precondition'', Str ''Action'', Str ''Result''],
       [Str ''X'', Str ''Given A'', Str ''When B'', Str ''Then C''],
       [Str ''Y'', Str [], Str ''When B'', Str ''Then C'']])) = 1 \<and>
   length (data (parseExcelFile (Inr
      [[Str ''Title'', Str ''Precondition'', Str ''Action'', Str ''Result''],
       [Str ''X'', Str ''Given A'', Str ''When B'', Str ''Then C''],
       [Str ''Y'', Str [], Str ''When B'', Str ''Then C'']]))) = 1 \<and>
   \<not> success (parseExcelFile (Inr
      [[Str ''Title'', Str ''Precondition'', Str ''Action'', Str ''Result''],
       [Str ''X'', Str ''Given A'', Str ''When B'', Str ''Then C''],
       [Str ''Y'', Str [], Str ''When B'', Str ''Then C'']])) \<and>
   errors (parseExcelFile (Inr
      [[Str ''Title'', Str ''Precondition'', Str ''Action'', Str ''Result''],
       [Str ''X'', Str ''Given A'', Str ''When B'', Str ''Then C''],
       [Str ''Y'', Str [], Str ''When B'', Str ''Then C'']])) =
     [''Row 3: Given condition is required'']"
proof -
  let ?r = "parseExcelFile (Inr
      [[Str ''Title'', Str ''Precondition'', Str ''Action'', Str ''Result''],
       [Str ''X'', Str ''Given A'', Str ''When B'', Str ''Then C''],
       [Str ''Y'', Str [], Str ''When B'', Str ''Then C'']])"
  have e: "errors ?r = [''Row 3: Given condition is required'']"
    by code_simp
  have n: "length (data ?r) = 1"
    by code_simp
  from parseExcelFile_report_invariant [of "Inr
      [[Str ''Title'', Str ''Precondition'', Str ''Action'', Str ''Result''],
       [Str ''X'', Str ''Given A'', Str ''When B'', Str ''Then C''],
       [Str ''Y'', Str [], Str ''When B'', Str ''Then C'']]"] e n
  show ?thesis by simp
qed







section \<open>Properties of the record validator\<close>

lemma push_chain:
  "push c7 m7 (push c6 m6 (push c5 m5 (push c4 m4 (push c3 m3 (push c2 m2 (push c1 m1 [])))))) =
   map snd (filter fst [(c1, m1), (c2, m2), (c3, m3), (c4, m4), (c5, m5), (c6, m6), (c7, m7)])"
  by (simp add: push_def)

lemma count_selected:
  assumes "distinct (map snd ps)" and "(c, m) \<in> set ps"
  shows "count_list (map snd (filter fst ps)) m = (if c then 1 else 0)"
  using assms
proof (induction ps)
  case Nil
  then show ?case by simp
next
  case (Cons p ps)
  have sub: "set (map snd (filter fst ps)) \<subseteq> set (map snd ps)" by auto
  show ?case
  proof (cases "(c, m) = p")
    case True
    from True have pm: "snd p = m" by auto
    from Cons.prems(1) have "snd p \<notin> set (map snd ps)" by simp
    with pm sub have "m \<notin> set (map snd (filter fst ps))" by blast
    then have "count_list (map snd (filter fst ps)) m = 0"
      using count_list_0_iff [of "map snd (filter fst ps)" m] by blast
    with True show ?thesis by auto
  next
    case False
    with Cons.prems have mem: "(c, m) \<in> set ps" by auto
    then have "snd (c, m) \<in> set (map snd ps)" by (simp only: set_map) (rule imageI)
    moreover from Cons.prems(1) have "snd p \<notin> set (map snd ps)" by simp
    ultimately have "snd p \<noteq> m" by auto
    moreover from Cons.prems(1) have "distinct (map snd ps)" by simp
    ultimately show ?thesis using Cons.IH mem by simp
  qed
qed

lemma messages_distinct:
  "distinct [''Description is required'', ''Given condition is required'',
      ''When action is required'', ''Then result is required'',
      ''Given condition should start with \"Given\"'',
      ''When action should start with \"When\"'', ''Then result should start with \"Then\"'']"
  by simp

text \<open>
  C7. The error list of \<^verbatim>\<open>validateUserStory\<close> holds exactly one \<open><field> is required\<close> entry
  for each of description, given, when, then that is absent or empty after trimming, exactly
  one \<open>should start with\<close> entry for each of given, when, then that is a non-empty string
  whose lowercased text does not start with its keyword, and nothing else; \<open>valid\<close> holds
  exactly when the list is empty.
\<close>

theorem validateUserStory_errors:
  "count_list (v_errors (validateUserStory story)) ''Description is required'' =
     (if missing (p_description story) then 1 else 0) \<and>
   count_list (v_errors (validateUserStory story)) ''Given condition is required'' =
     (if missing (p_given story) then 1 else 0) \<and>
   count_list (v_errors (validateUserStory story)) ''When action is required'' =
     (if missing (p_when story) then 1 else 0) \<and>
   count_list (v_errors (validateUserStory story)) ''Then result is required'' =
     (if missing (p_then story) then 1 else 0) \<and>
   count_list (v_errors (validateUserStory story)) ''Given condition should start with \"Given\"'' =
     (if lacksKeyword (p_given story) ''given'' then 1 else 0) \<and>
   count_list (v_errors (validateUserStory story)) ''When action should start with \"When\"'' =
     (if lacksKeyword (p_when story) ''when'' then 1 else 0) \<and>
   count_list (v_errors (validateUserStory story)) ''Then result should start with \"Then\"'' =
     (if lacksKeyword (p_then story) ''then'' then 1 else 0) \<and>
   set (v_errors (validateUserStory story)) \<subseteq>
     {''Description is required'', ''Given condition is required'', ''When action is required'',
      ''Then result is required'', ''Given condition should start with \"Given\"'',
      ''When action should start with \"When\"'', ''Then result should start with \"Then\"''} \<and>
   (valid (validateUserStory story) \<longleftrightarrow> v_errors (validateUserStory story) = [])"
proof -
  define m1 where "m1 = ''Description is required''"
  define m2 where "m2 = ''Given condition is required''"
  define m3 where "m3 = ''When action is required''"
  define m4 where "m4 = ''Then result is required''"
  define m5 where "m5 = ''Given condition should start with \"Given\"''"
  define m6 where "m6 = ''When action should start with \"When\"''"
  define m7 where "m7 = ''Then result should start with \"Then\"''"
  define ps where "ps = [(missing (p_description story), m1), (missing (p_given story), m2),
     (missing (p_when story), m3), (missing (p_then story), m4),
     (lacksKeyword (p_given story) ''given'', m5), (lacksKeyword (p_when story) ''when'', m6),
     (lacksKeyword (p_then story) ''then'', m7)]"
  have dist: "distinct (map snd ps)"
    using messages_distinct unfolding ps_def m1_def m2_def m3_def m4_def m5_def m6_def m7_def
    by (simp only: list.map snd_conv)
  have errs: "v_errors (validateUserStory story) = map snd (filter fst ps)"
    unfolding validateUserStory_def Let_def ps_def m1_def m2_def m3_def m4_def m5_def m6_def m7_def
    by (simp only: push_chain ValidationResult.simps)
  have ok: "valid (validateUserStory story) \<longleftrightarrow> v_errors (validateUserStory story) = []"
    unfolding validateUserStory_def Let_def by (simp only: ValidationResult.simps)
  have sub: "set (v_errors (validateUserStory story)) \<subseteq> {m1, m2, m3, m4, m5, m6, m7}"
    unfolding errs ps_def by auto
  have c1: "count_list (v_errors (validateUserStory story)) m1 =
      (if missing (p_description story) then 1 else 0)"
    unfolding errs by (rule count_selected [OF dist]) (simp add: ps_def)
  have c2: "count_list (v_errors (validateUserStory story)) m2 =
      (if missing (p_given story) then 1 else 0)"
    unfolding errs by (rule count_selected [OF dist]) (simp add: ps_def)
  have c3: "count_list (v_errors (validateUserStory story)) m3 =
      (if missing (p_when story) then 1 else 0)"
    unfolding errs by (rule count_selected [OF dist]) (simp add: ps_def)
  have c4: "count_list (v_errors (validateUserStory story)) m4 =
      (if missing (p_then story) then 1 else 0)"
    unfolding errs by (rule count_selected [OF dist]) (simp add: ps_def)
  have c5: "count_list (v_errors (validateUserStory story)) m5 =
      (if lacksKeyword (p_given story) ''given'' then 1 else 0)"
    unfolding errs by (rule count_selected [OF dist]) (simp add: ps_def)
  have c6: "count_list (v_errors (validateUserStory story)) m6 =
      (if lacksKeyword (p_when story) ''when'' then 1 else 0)"
    unfolding errs by (rule count_selected [OF dist]) (simp add: ps_def)
  have c7: "count_list (v_errors (validateUserStory story)) m7 =
      (if lacksKeyword (p_then story) ''then'' then 1 else 0)"
    unfolding errs by (rule count_selected [OF dist]) (simp add: ps_def)
  from c1 c2 c3 c4 c5 c6 c7 sub ok show ?thesis
    unfolding m1_def m2_def m3_def m4_def m5_def m6_def m7_def by blast
qed

theorem validateUserStory_errors_witness:
  "v_errors (validateUserStory \<lparr> p_id = None, p_description = Some ''Login'', p_asA = None,
      p_iWant = None, p_soThat = None, p_acceptanceCriteria = None, p_requirements = None,
      p_given = Some '' '', p_when = Some ''When I log in'', p_then = Some ''I see the page'',
      p_notes = None, p_acId = None, p_tags = None, p_priority = None \<rparr>) =
     [''Given condition is required'', ''Given condition should start with \"Given\"'',
      ''Then result should start with \"Then\"''] \<and>
   count_list (v_errors (validateUserStory \<lparr> p_id = None, p_description = Some ''Login'', p_asA = None,
      p_iWant = None, p_soThat = None, p_acceptanceCriteria = None, p_requirements = None,
      p_given = Some '' '', p_when = Some ''When I log in'', p_then = Some ''I see the page'',
      p_notes = None, p_acId = None, p_tags = None, p_priority = None \<rparr>))
     ''Given condition is required'' = 1 \<and>
   \<not> valid (validateUserStory \<lparr> p_id = None, p_description = Some ''Login'', p_asA = None,
      p_iWant = None, p_soThat = None, p_acceptanceCriteria = None, p_requirements = None,
      p_given = Some '' '', p_when = Some ''When I log in'', p_then = Some ''I see the page'',
      p_notes = None, p_acId = None, p_tags = None, p_priority = None \<rparr>)"
proof -
  let ?s = "\<lparr> p_id = None, p_description = Some ''Login'', p_asA = None,
      p_iWant = None, p_soThat = None, p_acceptanceCriteria = None, p_requirements = None,
      p_given = Some '' '', p_when = Some ''When I log in'', p_then = Some ''I see the page'',
      p_notes = None, p_acId = None, p_tags = None, p_priority = None \<rparr>"
  have e: "v_errors (validateUserStory ?s) =
     [''Given condition is required'', ''Given condition should start with \"Given\"'',
      ''Then result should start with \"Then\"'']"
    by code_simp
  have m: "missing (p_given ?s)"
    by (simp add: missing_def trim_def isWhiteSpace_def)
  from validateUserStory_errors [of ?s] m e show ?thesis
    by simp
qed

section \<open>Properties of the mock provider\<close>

lemma forEachModule_step:
  "forEachModule clock context story (module # rest) (k, testCases) =
     (if includeNegativeTests context
      then forEachModule clock context story rest
             (Suc (Suc (Suc k)),
              testCases @ [createPositiveTestCase story module context (clock k),
                           createNegativeTestCase story module context (clock (Suc k)),
                           createEdgeCaseTest story module context (clock (Suc (Suc k)))])
      else forEachModule clock context story rest
             (Suc (Suc k),
              testCases @ [createPositiveTestCase story module context (clock k),
                           createEdgeCaseTest story module context (clock (Suc k))]))"
  by (simp add: Let_def)

lemma forEachModule_sum:
  assumes pos: "\<And>s m c n. f (createPositiveTestCase s m c n) = a"
    and neg: "\<And>s m c n. f (createNegativeTestCase s m c n) = b"
    and edge: "\<And>s m c n. f (createEdgeCaseTest s m c n) = e"
  shows "sum_list (map f (snd (forEachModule clock context story modules (k, testCases)))) =
         sum_list (map f testCases) +
         length modules * (a + (if includeNegativeTests context then b else 0) + e)"
proof (induction modules arbitrary: k testCases)
  case Nil
  show ?case by simp
next
  case (Cons module rest)
  show ?case
  proof (cases "includeNegativeTests context")
    case True
    then show ?thesis
      by (simp only: forEachModule_step Cons.IH if_True) (simp add: pos neg edge)
  next
    case False
    then show ?thesis
      by (simp only: forEachModule_step Cons.IH if_False) (simp add: pos neg edge)
  qed
qed

lemma forEachStory_sum:
  assumes pos: "\<And>s m c n. f (createPositiveTestCase s m c n) = a"
    and neg: "\<And>s m c n. f (createNegativeTestCase s m c n) = b"
    and edge: "\<And>s m c n. f (createEdgeCaseTest s m c n) = e"
  shows "sum_list (map f (snd (forEachStory clock context stories state))) =
         sum_list (map f (snd state)) +
         length stories * length (selectedModules context) *
           (a + (if includeNegativeTests context then b else 0) + e)"
proof (induction stories arbitrary: state)
  case Nil
  show ?case by simp
next
  case (Cons story rest)
  obtain k testCases where state: "state = (k, testCases)" by (cases state)
  let ?w = "a + (if includeNegativeTests context then b else 0) + e"
  have one: "sum_list (map f (snd (forEachModule clock context story (selectedModules context) state))) =
        sum_list (map f (snd state)) + length (selectedModules context) * ?w"
    unfolding state snd_conv by (rule forEachModule_sum [OF pos neg edge])
  have "sum_list (map f (snd (forEachStory clock context (story # rest) state))) =
        sum_list (map f (snd (forEachModule clock context story (selectedModules context) state))) +
        length rest * length (selectedModules context) * ?w"
    by (simp only: forEachStory.simps Cons.IH)
  also have "\<dots> = sum_list (map f (snd state)) + length (selectedModules context) * ?w +
        length rest * length (selectedModules context) * ?w"
    by (simp only: one)
  also have "\<dots> = sum_list (map f (snd state)) +
        length (story # rest) * length (selectedModules context) * ?w"
    by (simp add: add_mult_distrib)
  finally show ?case .
qed

lemma testCases_of_generate:
  "g_testCases (MockAIProvider_generateTestCases clock context) =
        snd (forEachStory clock context (userStories context) (1, []))"
  unfolding MockAIProvider_generateTestCases_def Let_def
  by (cases "forEachStory clock context (userStories context) (1, [])") simp

lemma generated_sum:
  assumes pos: "\<And>s m c n. f (createPositiveTestCase s m c n) = a"
    and neg: "\<And>s m c n. f (createNegativeTestCase s m c n) = b"
    and edge: "\<And>s m c n. f (createEdgeCaseTest s m c n) = e"
  shows "sum_list (map f (g_testCases (MockAIProvider_generateTestCases clock context))) =
         length (userStories context) * length (selectedModules context) *
           (a + (if includeNegativeTests context then b else 0) + e)"
proof -
  have "sum_list (map f (snd (forEachStory clock context (userStories context) (1, [])))) =
        sum_list (map f (snd (1::nat, []::TestCase list))) +
         length (userStories context) * length (selectedModules context) *
           (a + (if includeNegativeTests context then b else 0) + e)"
    by (rule forEachStory_sum [OF pos neg edge])
  then show ?thesis
    by (simp only: testCases_of_generate snd_conv list.map sum_list.Nil add_0)
qed

lemma length_as_sum: "length xs = sum_list (map (\<lambda>x. 1) xs)"
  by (induction xs) auto

lemma count_as_sum: "length (filter P xs) = sum_list (map (\<lambda>x. if P x then 1 else 0) xs)"
  by (induction xs) auto

lemma none_as_sum:
  "sum_list (map (\<lambda>x. if P x then 0 else (1::nat)) xs) = 0 \<Longrightarrow> \<forall>x\<in>set xs. P x"
proof (induction xs)
  case Nil
  show ?case by simp
next
  case (Cons x xs)
  from Cons.prems have px: "P x" by (cases "P x") simp_all
  from Cons.prems have "sum_list (map (\<lambda>x. if P x then 0 else (1::nat)) xs) = 0" by simp
  then have "\<forall>x\<in>set xs. P x" by (rule Cons.IH)
  with px show ?case by simp
qed

lemma title_prefixes:
  "startsWith (tc_title (createPositiveTestCase s m c n)) ''Positive Test: ''"
  "\<not> startsWith (tc_title (createPositiveTestCase s m c n)) ''Negative Test: ''"
  "\<not> startsWith (tc_title (createPositiveTestCase s m c n)) ''Edge Case: ''"
  "\<not> startsWith (tc_title (createNegativeTestCase s m c n)) ''Positive Test: ''"
  "startsWith (tc_title (createNegativeTestCase s m c n)) ''Negative Test: ''"
  "\<not> startsWith (tc_title (createNegativeTestCase s m c n)) ''Edge Case: ''"
  "\<not> startsWith (tc_title (createEdgeCaseTest s m c n)) ''Positive Test: ''"
  "\<not> startsWith (tc_title (createEdgeCaseTest s m c n)) ''Negative Test: ''"
  "startsWith (tc_title (createEdgeCaseTest s m c n)) ''Edge Case: ''"
  "tc_priority (createEdgeCaseTest s m c n) = Low"
  by (simp_all add: createPositiveTestCase_def createNegativeTestCase_def createEdgeCaseTest_def)

text \<open>
  C8. For a context with S stories and M selected modules the mock provider returns
  S * M * 3 test cases when \<open>includeNegativeTests\<close> is set and S * M * 2 when it is not:
  S * M positive ones, S * M edge ones, and S * M negative ones only when the flag is set.
  Every edge test case has priority low.
\<close>

theorem MockAIProvider_artifact_count:
  "length (g_testCases (MockAIProvider_generateTestCases clock context)) =
     length (userStories context) * length (selectedModules context) *
       (if includeNegativeTests context then 3 else 2) \<and>
   length (filter (\<lambda>t. startsWith (tc_title t) ''Positive Test: '')
       (g_testCases (MockAIProvider_generateTestCases clock context))) =
     length (userStories context) * length (selectedModules context) \<and>
   length (filter (\<lambda>t. startsWith (tc_title t) ''Negative Test: '')
       (g_testCases (MockAIProvider_generateTestCases clock context))) =
     (if includeNegativeTests context
      then length (userStories context) * length (selectedModules context) else 0) \<and>
   length (filter (\<lambda>t. startsWith (tc_title t) ''Edge Case: '')
       (g_testCases (MockAIProvider_generateTestCases clock context))) =
     length (userStories context) * length (selectedModules context) \<and>
   (\<forall>t \<in> set (g_testCases (MockAIProvider_generateTestCases clock context)).
      startsWith (tc_title t) ''Edge Case: '' \<longrightarrow> tc_priority t = Low)"
proof -
  let ?ts = "g_testCases (MockAIProvider_generateTestCases clock context)"
  let ?n = "length (userStories context) * length (selectedModules context)"
  have "sum_list (map (\<lambda>t. 1) ?ts) = ?n * (1 + (if includeNegativeTests context then 1 else 0) + 1)"
    by (rule generated_sum) (rule refl)+
  then have total: "length ?ts = ?n * (if includeNegativeTests context then 3 else 2)"
    unfolding length_as_sum [of ?ts] by (cases "includeNegativeTests context") simp_all
  have "sum_list (map (\<lambda>t. if startsWith (tc_title t) ''Positive Test: '' then 1 else 0) ?ts) =
        ?n * (1 + (if includeNegativeTests context then 0 else 0) + 0)"
    by (rule generated_sum) (simp_all only: title_prefixes if_True if_False)
  then have positive:
    "length (filter (\<lambda>t. startsWith (tc_title t) ''Positive Test: '') ?ts) = ?n"
    unfolding count_as_sum by simp
  have "sum_list (map (\<lambda>t. if startsWith (tc_title t) ''Negative Test: '' then 1 else 0) ?ts) =
        ?n * (0 + (if includeNegativeTests context then 1 else 0) + 0)"
    by (rule generated_sum) (simp_all only: title_prefixes if_True if_False)
  then have negative:
    "length (filter (\<lambda>t. startsWith (tc_title t) ''Negative Test: '') ?ts) =
       (if includeNegativeTests context then ?n else 0)"
    unfolding count_as_sum by simp
  have "sum_list (map (\<lambda>t. if startsWith (tc_title t) ''Edge Case: '' then 1 else 0) ?ts) =
        ?n * (0 + (if includeNegativeTests context then 0 else 0) + 1)"
    by (rule generated_sum) (simp_all only: title_prefixes if_True if_False)
  then have edge:
    "length (filter (\<lambda>t. startsWith (tc_title t) ''Edge Case: '') ?ts) = ?n"
    unfolding count_as_sum by simp
  have "sum_list (map (\<lambda>t. if startsWith (tc_title t) ''Edge Case: '' \<longrightarrow> tc_priority t = Low
                             then 0 else (1::nat)) ?ts) =
        ?n * (0 + (if includeNegativeTests context then 0 else 0) + 0)"
    by (rule generated_sum) (simp_all only: title_prefixes if_True if_False simp_thms)
  then have "sum_list (map (\<lambda>t. if startsWith (tc_title t) ''Edge Case: '' \<longrightarrow> tc_priority t = Low
                             then 0 else (1::nat)) ?ts) = 0"
    by simp
  then have low: "\<forall>t \<in> set ?ts. startsWith (tc_title t) ''Edge Case: '' \<longrightarrow> tc_priority t = Low"
    by (rule none_as_sum)
  from total positive negative edge low show ?thesis by blast
qed

theorem MockAIProvider_artifact_count_witness:
  "length (g_testCases (MockAIProvider_generateTestCases (\<lambda>k. 1000 + k)
     \<lparr> userStories = [\<lparr> s_id = ''US-002'', s_description = ''Login works'', s_asA = ''User'',
         s_iWant = ''Login works'', s_soThat = ''I can achieve my goal'',
         s_acceptanceCriteria = [], s_requirements = [],
         s_given = ''Given I am on login page'', s_when = ''When I submit valid credentials'',
         s_then = ''Then I see the dashboard'', s_notes = Some [], s_acId = Some [],
         s_tags = Some [], s_priority = Some High \<rparr>],
       selectedModules = [''ticketing'', ''upsize''], userType = ''travel_agent'',
       testingScope = Smoke, includeNegativeTests = True, includePerformanceTests = False,
       includeSecurityTests = False \<rparr>)) = 6 \<and>
   length (g_testCases (MockAIProvider_generateTestCases (\<lambda>k. 1000 + k)
     \<lparr> userStories = [\<lparr> s_id = ''US-002'', s_description = ''Login works'', s_asA = ''User'',
         s_iWant = ''Login works'', s_soThat = ''I can achieve my goal'',
         s_acceptanceCriteria = [], s_requirements = [],
         s_given = ''Given I am on login page'', s_when = ''When I submit valid credentials'',
         s_then = ''Then I see the dashboard'', s_notes = Some [], s_acId = Some [],
         s_tags = Some [], s_priority = Some High \<rparr>],
       selectedModules = [''ticketing'', ''upsize''], userType = ''travel_agent'',
       testingScope = Smoke, includeNegativeTests = False, includePerformanceTests = False,
       includeSecurityTests = False \<rparr>)) = 4"
proof -
  let ?story = "\<lparr> s_id = ''US-002'', s_description = ''Login works'', s_asA = ''User'',
         s_iWant = ''Login works'', s_soThat = ''I can achieve my goal'',
         s_acceptanceCriteria = [], s_requirements = [],
         s_given = ''Given I am on login page'', s_when = ''When I submit valid credentials'',
         s_then = ''Then I see the dashboard'', s_notes = Some [], s_acId = Some [],
         s_tags = Some [], s_priority = Some High \<rparr>"
  let ?ctx = "\<lambda>negative. \<lparr> userStories = [?story],
       selectedModules = [''ticketing'', ''upsize''], userType = ''travel_agent'',
       testingScope = Smoke, includeNegativeTests = negative, includePerformanceTests = False,
       includeSecurityTests = False \<rparr>"
  from MockAIProvider_artifact_count [of "\<lambda>k. 1000 + k" "?ctx True"]
  have six: "length (g_testCases (MockAIProvider_generateTestCases (\<lambda>k. 1000 + k) (?ctx True))) = 6"
    by simp
  from MockAIProvider_artifact_count [of "\<lambda>k. 1000 + k" "?ctx False"]
  have four: "length (g_testCases (MockAIProvider_generateTestCases (\<lambda>k. 1000 + k) (?ctx False))) = 4"
    by simp
  from six four show ?thesis by simp
qed

section \<open>Properties of the provider registry\<close>

text \<open>
  C9. Generation through the registry under a name that is not registered fails with the
  error \<open>Provider <name> not found\<close> and calls no provider; under the name of a provider whose
  configuration check returns false it fails with \<open>Provider <name> configuration is invalid\<close>
  after that check, which is the only call made: the provider is not asked to generate.
\<close>

theorem AIService_generateTestCases_guards:
  "(providers service providerName = None \<longrightarrow>
      AIService_generateTestCases service providerName context =
        (Inl (''Provider '' @ providerName @ '' not found''), [])) \<and>
   (\<forall>provider. providers service providerName = Some provider \<and>
        \<not> validateConfiguration provider \<longrightarrow>
      AIService_generateTestCases service providerName context =
        (Inl (''Provider '' @ providerName @ '' configuration is invalid''),
         [ValidateConfiguration providerName]))"
  by (simp add: AIService_generateTestCases_def)

theorem AIService_generateTestCases_guards_witness:
  "AIService_generateTestCases
     \<lparr> providers = [''mock'' \<mapsto> \<lparr> provider_name = ''Mock AI Provider'', provider_model = ''mock-v1.0'',
                                 validateConfiguration = True,
                                 generateTestCases = (\<lambda>c. Inr (length (userStories c))) \<rparr>,
                    ''openai'' \<mapsto> \<lparr> provider_name = ''OpenAI'', provider_model = ''gpt-4'',
                                 validateConfiguration = False,
                                 generateTestCases = (\<lambda>c. Inr 0) \<rparr>],
       defaultProvider = ''mock'' \<rparr>
     ''gemini''
     \<lparr> userStories = [], selectedModules = [], userType = ''travel_agent'', testingScope = Smoke,
       includeNegativeTests = True, includePerformanceTests = False,
       includeSecurityTests = False \<rparr>
   = (Inl ''Provider gemini not found'', []) \<and>
   AIService_generateTestCases
     \<lparr> providers = [''mock'' \<mapsto> \<lparr> provider_name = ''Mock AI Provider'', provider_model = ''mock-v1.0'',
                                 validateConfiguration = True,
                                 generateTestCases = (\<lambda>c. Inr (length (userStories c))) \<rparr>,
                    ''openai'' \<mapsto> \<lparr> provider_name = ''OpenAI'', provider_model = ''gpt-4'',
                                 validateConfiguration = False,
                                 generateTestCases = (\<lambda>c. Inr 0) \<rparr>],
       defaultProvider = ''mock'' \<rparr>
     ''openai''
     \<lparr> userStories = [], selectedModules = [], userType = ''travel_agent'', testingScope = Smoke,
       includeNegativeTests = True, includePerformanceTests = False,
       includeSecurityTests = False \<rparr>
   = (Inl ''Provider openai configuration is invalid'', [ValidateConfiguration ''openai''])"
proof -
  let ?service = "\<lparr> providers = [''mock'' \<mapsto> \<lparr> provider_name = ''Mock AI Provider'', provider_model = ''mock-v1.0'',
                                 validateConfiguration = True,
                                 generateTestCases = (\<lambda>c. Inr (length (userStories c))) \<rparr>,
                    ''openai'' \<mapsto> \<lparr> provider_name = ''OpenAI'', provider_model = ''gpt-4'',
                                 validateConfiguration = False,
                                 generateTestCases = (\<lambda>c. Inr 0) \<rparr>],
       defaultProvider = ''mock'' \<rparr>"
  let ?ctx = "\<lparr> userStories = [], selectedModules = [], userType = ''travel_agent'', testingScope = Smoke,
       includeNegativeTests = True, includePerformanceTests = False,
       includeSecurityTests = False \<rparr>"
  from AIService_generateTestCases_guards [of ?service "''gemini''" ?ctx]
  have a: "AIService_generateTestCases ?service ''gemini'' ?ctx = (Inl ''Provider gemini not found'', [])"
    by simp
  from AIService_generateTestCases_guards [of ?service "''openai''" ?ctx]
  have b: "AIService_generateTestCases ?service ''openai'' ?ctx =
      (Inl ''Provider openai configuration is invalid'', [ValidateConfiguration ''openai''])"
    by simp
  from a b show ?thesis by simp
qed

text \<open>
  The older service does the same for the name it selects, which is the default provider
  when no name or the empty name is passed.
\<close>

lemma AIService_generateTestCases_copy_guards:
  assumes "selectedProvider =
             (case providerName of None \<Rightarrow> defaultProvider service
              | Some n \<Rightarrow> if n = [] then defaultProvider service else n)"
  shows "(providers service selectedProvider = None \<longrightarrow>
            AIService_generateTestCases_copy service context providerName =
              (Inl (''AI provider '' @ [CHR 0x27] @ selectedProvider @ [CHR 0x27] @ '' not found''), [])) \<and>
         (\<forall>provider. providers service selectedProvider = Some provider \<and>
              \<not> validateConfiguration provider \<longrightarrow>
            AIService_generateTestCases_copy service context providerName =
              (Inl (''AI provider '' @ [CHR 0x27] @ selectedProvider @ [CHR 0x27] @
                    '' is not properly configured''),
               [ValidateConfiguration selectedProvider]))"
  unfolding assms by (simp add: AIService_generateTestCases_copy_def Let_def)

section \<open>Properties of the remote adapters\<close>

lemma failureResult_props:
  "getProp (failureResult name t message) ''testCases'' = Inr (JArr [])"
  "getProp (failureResult name t message) ''success'' = Inr JUndefined"
  "getProp (failureResult name t message) ''provider'' = Inr (JStr name)"
  "getProp (failureResult name t message) ''generationTime'' = Inr (JNum t)"
  "getProp (failureResult name t message) ''metadata'' =
     Inr (JObj [(''totalGenerated'', JNum 0), (''successful'', JNum 0), (''failed'', JNum 1),
                (''warnings'', JArr [JStr (''Generation failed: '' @ message)])])"
  by (simp_all add: failureResult_def)

lemma OpenAIProvider_try_call_fails:
  "create context = Inl message \<Longrightarrow>
   OpenAIProvider_try clock JSON_parse create model context = Inl (message, 1)"
  by (simp add: OpenAIProvider_try_def)

lemma OpenAIProvider_try_parse_fails:
  "create context = Inr response \<Longrightarrow> content response = Some c \<Longrightarrow> c \<noteq> [] \<Longrightarrow>
   JSON_parse c = Inl message \<Longrightarrow>
   OpenAIProvider_try clock JSON_parse create model context = Inl (message, 2)"
  by (simp add: OpenAIProvider_try_def)

lemma GeminiProvider_try_call_fails:
  "generateContent context = Inl message \<Longrightarrow>
   GeminiProvider_try clock JSON_parse generateContent model context = Inl (message, 1)"
  by (simp add: GeminiProvider_try_def)

lemma GeminiProvider_try_parse_fails:
  "generateContent context = Inr c \<Longrightarrow> JSON_parse (trim (removeFences c)) = Inl message \<Longrightarrow>
   GeminiProvider_try clock JSON_parse generateContent model context = Inl (message, 2)"
  by (simp add: GeminiProvider_try_def)

lemma OpenAIProvider_catches_all:
  "\<exists>result. OpenAIProvider_generateTestCases clock JSON_parse create model context = Inr result"
  unfolding OpenAIProvider_generateTestCases_def tryCatch_def
  by (cases "OpenAIProvider_try clock JSON_parse create model context") auto

lemma GeminiProvider_catches_all:
  "\<exists>result. GeminiProvider_generateTestCases clock JSON_parse generateContent model context = Inr result"
  unfolding GeminiProvider_generateTestCases_def tryCatch_def
  by (cases "GeminiProvider_try clock JSON_parse generateContent model context") auto

text \<open>
  C10, as stated, asks for \<^verbatim>\<open>success = false\<close> in the result of a failed generation. The
  result objects of the remote adapters have no \<^verbatim>\<open>success\<close> property at all: reading it gives
  \<^verbatim>\<open>undefined\<close> after a failed call, and just the same after a call that went well.
\<close>

theorem remote_adapter_result_has_no_success_flag:
  "(case OpenAIProvider_generateTestCases (\<lambda>k. 100 + 5 * k) (\<lambda>s. Inl ''Unexpected token'')
           (\<lambda>c. Inl ''timeout'') ''gpt-4''
           \<lparr> userStories = [], selectedModules = [], userType = ''travel_agent'',
             testingScope = Smoke, includeNegativeTests = True, includePerformanceTests = False,
             includeSecurityTests = False \<rparr> of
      Inl e \<Rightarrow> Inl e
    | Inr result \<Rightarrow> getProp result ''success'') = Inr JUndefined \<and>
   (case OpenAIProvider_generateTestCases (\<lambda>k. 100 + 5 * k)
           (\<lambda>s. Inr (JObj [(''testCases'', JArr [JObj [(''id'', JStr ''TC_001'')]])]))
           (\<lambda>c. Inr \<lparr> content = Some ''{}'', total_tokens = Some 12 \<rparr>) ''gpt-4''
           \<lparr> userStories = [], selectedModules = [], userType = ''travel_agent'',
             testingScope = Smoke, includeNegativeTests = True, includePerformanceTests = False,
             includeSecurityTests = False \<rparr> of
      Inl e \<Rightarrow> Inl e
    | Inr result \<Rightarrow> getProp result ''success'') = Inr JUndefined"
  by (simp add: OpenAIProvider_generateTestCases_def OpenAIProvider_try_def tryCatch_def
        failureResult_def testCasesOf_def lengthOf_def)

text \<open>
  C10, amended. When the external call fails, or the parser rejects the text of the
  response, with an error of message \<open>m\<close>, \<^verbatim>\<open>generateTestCases\<close> of either remote adapter
  returns normally, and what it returns is the failure object of its \<^verbatim>\<open>catch\<close> block: no test
  cases, metadata with \<open>totalGenerated = 0\<close>, \<open>successful = 0\<close>, \<open>failed = 1\<close> and the one
  warning \<open>Generation failed: m\<close>, and no \<^verbatim>\<open>success\<close> property.
\<close>

theorem remote_adapters_failure_result:
  "(create context = Inl message \<or>
    (\<exists>response c. create context = Inr response \<and> content response = Some c \<and> c \<noteq> [] \<and>
       JSON_parse c = Inl message) \<longrightarrow>
    (\<exists>t. OpenAIProvider_generateTestCases clock JSON_parse create model context =
           Inr (failureResult ''OpenAI'' t message))) \<and>
   (generateContent context = Inl message \<or>
    (\<exists>c. generateContent context = Inr c \<and> JSON_parse (trim (removeFences c)) = Inl message) \<longrightarrow>
    (\<exists>t. GeminiProvider_generateTestCases clock JSON_parse generateContent model context =
           Inr (failureResult ''Google Gemini'' t message))) \<and>
   getProp (failureResult name t message) ''testCases'' = Inr (JArr []) \<and>
   getProp (failureResult name t message) ''metadata'' =
     Inr (JObj [(''totalGenerated'', JNum 0), (''successful'', JNum 0), (''failed'', JNum 1),
                (''warnings'', JArr [JStr (''Generation failed: '' @ message)])]) \<and>
   getProp (failureResult name t message) ''success'' = Inr JUndefined"
proof -
  have openai: "\<exists>t. OpenAIProvider_generateTestCases clock JSON_parse create model context =
           Inr (failureResult ''OpenAI'' t message)"
    if "OpenAIProvider_try clock JSON_parse create model context = Inl (message, k)" for k
    by (rule exI [of _ "int (clock k) - int (clock 0)"])
       (simp add: that OpenAIProvider_generateTestCases_def tryCatch_def)
  have gemini: "\<exists>t. GeminiProvider_generateTestCases clock JSON_parse generateContent model context =
           Inr (failureResult ''Google Gemini'' t message)"
    if "GeminiProvider_try clock JSON_parse generateContent model context = Inl (message, k)" for k
    by (rule exI [of _ "int (clock k) - int (clock 0)"])
       (simp add: that GeminiProvider_generateTestCases_def tryCatch_def)
  show ?thesis
    using openai [OF OpenAIProvider_try_call_fails] openai [OF OpenAIProvider_try_parse_fails]
      gemini [OF GeminiProvider_try_call_fails] gemini [OF GeminiProvider_try_parse_fails]
    by (auto simp: failureResult_props)
qed

theorem remote_adapters_failure_result_witness:
  "OpenAIProvider_generateTestCases (\<lambda>k. 100 + 5 * k) (\<lambda>s. Inl ''Unexpected token'')
      (\<lambda>c. Inl ''timeout'') ''gpt-4''
      \<lparr> userStories = [], selectedModules = [], userType = ''travel_agent'',
        testingScope = Smoke, includeNegativeTests = True, includePerformanceTests = False,
        includeSecurityTests = False \<rparr> =
     Inr (failureResult ''OpenAI'' 5 ''timeout'') \<and>
   GeminiProvider_generateTestCases (\<lambda>k. 100 + 5 * k) (\<lambda>s. Inl ''Unexpected token'')
      (\<lambda>c. Inr ''not json'') ''gemini-pro''
      \<lparr> userStories = [], selectedModules = [], userType = ''travel_agent'',
        testingScope = Smoke, includeNegativeTests = True, includePerformanceTests = False,
        includeSecurityTests = False \<rparr> =
     Inr (failureResult ''Google Gemini'' 10 ''Unexpected token'') \<and>
   getProp (failureResult ''OpenAI'' 5 ''timeout'') ''metadata'' =
     Inr (JObj [(''totalGenerated'', JNum 0), (''successful'', JNum 0), (''failed'', JNum 1),
                (''warnings'', JArr [JStr ''Generation failed: timeout''])])"
proof -
  let ?clock = "\<lambda>k::nat. 100 + 5 * k"
  let ?ctx = "\<lparr> userStories = [], selectedModules = [], userType = ''travel_agent'',
        testingScope = Smoke, includeNegativeTests = True, includePerformanceTests = False,
        includeSecurityTests = False \<rparr>"
  have a: "OpenAIProvider_generateTestCases ?clock (\<lambda>s. Inl ''Unexpected token'')
      (\<lambda>c. Inl ''timeout'') ''gpt-4'' ?ctx = Inr (failureResult ''OpenAI'' 5 ''timeout'')"
    by (simp add: OpenAIProvider_generateTestCases_def OpenAIProvider_try_def tryCatch_def)
  have b: "GeminiProvider_generateTestCases ?clock (\<lambda>s. Inl ''Unexpected token'')
      (\<lambda>c. Inr ''not json'') ''gemini-pro'' ?ctx =
      Inr (failureResult ''Google Gemini'' 10 ''Unexpected token'')"
    by (simp add: GeminiProvider_generateTestCases_def GeminiProvider_try_def tryCatch_def)
  from remote_adapters_failure_result
    [of "\<lambda>c. Inl ''timeout''" ?ctx "''timeout''" "\<lambda>s. Inl ''Unexpected token''" ?clock
        "''gpt-4''" "\<lambda>c. Inr ''not json''" "''OpenAI''" 5]
  have "getProp (failureResult ''OpenAI'' 5 ''timeout'') ''metadata'' =
     Inr (JObj [(''totalGenerated'', JNum 0), (''successful'', JNum 0), (''failed'', JNum 1),
                (''warnings'', JArr [JStr ''Generation failed: timeout''])])"
    by simp
  with a b show ?thesis by simp
qed

end
